theory Spec2Isabelle
  imports Complex_Main
begin

section \<open>JavaScript values\<close>

text \<open>
  Time is \<^verbatim>\<open>Date.now()\<close>: milliseconds since the epoch. A value that may be
  \<^verbatim>\<open>undefined\<close> (an environment variable, a field of a JSON body, a header) is a
  \<open>string option\<close>. A thrown \<^verbatim>\<open>Error\<close> is a value with its \<^verbatim>\<open>name\<close> and
  \<^verbatim>\<open>message\<close>.
\<close>

type_synonym time = nat

record js_error =
  err_name :: string
  err_message :: string

definition truthy :: "string option \<Rightarrow> bool" where
  \<comment> \<open>JavaScript truthiness of a string or \<^verbatim>\<open>undefined\<close>: \<^verbatim>\<open>!v\<close> is \<open>\<not> truthy v\<close>.\<close>
  "truthy v = (case v of None \<Rightarrow> False | Some s \<Rightarrow> s \<noteq> [])"

definition or_default :: "string option \<Rightarrow> string \<Rightarrow> string" where
  \<comment> \<open>\<^verbatim>\<open>v || d\<close> for a string or \<^verbatim>\<open>undefined\<close> on the left.\<close>
  "or_default v d = (case v of None \<Rightarrow> d | Some s \<Rightarrow> if s = [] then d else s)"

definition startsWith :: "string \<Rightarrow> string \<Rightarrow> bool" where
  "startsWith s p = (take (length p) s = p)"

definition is_digit :: "char \<Rightarrow> bool" where
  \<comment> \<open>The regular expression class \<^verbatim>\<open>\d\<close>.\<close>
  "is_digit c = (c \<in> set ''0123456789'')"

definition digit_char :: "nat \<Rightarrow> char" where
  "digit_char d = ''0123456789'' ! d"

fun toString :: "nat \<Rightarrow> string" where
  \<comment> \<open>\<^verbatim>\<open>Number.prototype.toString\<close> on a non-negative integer: its decimal digits.\<close>
  "toString n = (if n < 10 then [digit_char n]
                 else toString (n div 10) @ [digit_char (n mod 10)])"

declare toString.simps [simp del]

section \<open>The process environment\<close>

record env =
  env_NODE_ENV :: "string option"
  env_AWS_LAMBDA_FUNCTION_NAME :: "string option"
  env_JWT_SECRET :: "string option"
  env_JWT_EXPIRES_IN :: "string option"

definition isDevelopment :: "env \<Rightarrow> bool" where
  \<comment> \<open>\<^verbatim>\<open>process.env.NODE_ENV === 'development' || !process.env.AWS_LAMBDA_FUNCTION_NAME\<close>\<close>
  "isDevelopment e =
     (env_NODE_ENV e = Some ''development'' \<or> \<not> truthy (env_AWS_LAMBDA_FUNCTION_NAME e))"

section \<open>utils/otp.js\<close>

text \<open>The file is \<^verbatim>\<open>src/unnamed/part_001\<close>.\<close>

definition generateOTP :: "real \<Rightarrow> string" where
  \<comment> \<open>\<^verbatim>\<open>Math.floor(100000 + Math.random() * 900000).toString()\<close>; \<open>r\<close> is the random
      draw, and the arithmetic is exact.\<close>
  "generateOTP r = toString (nat \<lfloor>100000 + r * 900000\<rfloor>)"

definition isValidOTPFormat :: "string \<Rightarrow> bool" where
  \<comment> \<open>\<^verbatim>\<open>/^\d{6}$/.test(otp)\<close>\<close>
  "isValidOTPFormat otp = (length otp = 6 \<and> list_all is_digit otp)"

definition isOTPExpired :: "time \<Rightarrow> time \<Rightarrow> bool" where
  \<comment> \<open>\<^verbatim>\<open>new Date() > new Date(expiryTime)\<close>, the first argument being the current time.\<close>
  "isOTPExpired now expiryTime = (now > expiryTime)"

text \<open>
  \<^verbatim>\<open>getMinutes\<close> and \<^verbatim>\<open>setMinutes\<close> work on the fields of the local time. The
  time zone of the process is a parameter: \<open>LocalTZA tz t isUTC\<close> is the offset of local
  time from UTC in milliseconds, at the UTC time \<open>t\<close> when \<open>isUTC\<close> and at the local
  time \<open>t\<close> otherwise, as in the language definition. \<^verbatim>\<open>setMinutes(m + 15)\<close> with
  \<open>m\<close> the local minutes adds fifteen minutes to the local time and converts back.
  Where the offset is the same before and after, the result is fifteen minutes from now;
  across a change of offset it is not. Times are at or after the epoch.
\<close>

record timezone =
  LocalTZA :: "int \<Rightarrow> bool \<Rightarrow> int"

definition LocalTime :: "timezone \<Rightarrow> int \<Rightarrow> int" where
  "LocalTime tz t = t + LocalTZA tz t True"

definition UTC :: "timezone \<Rightarrow> int \<Rightarrow> int" where
  "UTC tz t = t - LocalTZA tz t False"

definition getOTPExpiryTime :: "timezone \<Rightarrow> time \<Rightarrow> time" where
  \<comment> \<open>\<^verbatim>\<open>expiryTime.setMinutes(expiryTime.getMinutes() + 15)\<close> on \<^verbatim>\<open>new Date()\<close>\<close>
  "getOTPExpiryTime tz now = nat (UTC tz (LocalTime tz (int now) + 15 * 60000))"

section \<open>utils/jwt.js\<close>

text \<open>
  The file is \<^verbatim>\<open>src/src/utils/jwt.js\<close>. The payload the service signs is
  \<^verbatim>\<open>{userId, mobileNumber}\<close>; what verification returns carries \<^verbatim>\<open>iat\<close> and
  \<^verbatim>\<open>exp\<close> as well.
\<close>

record payload =
  userId :: nat
  mobileNumber :: string

record decoded = payload +
  iat :: nat
  exp_claim :: nat

text \<open>
  The package \<^verbatim>\<open>jsonwebtoken\<close> is not part of the repository: its functions are
  parameters. \<open>jwt_sign lib p secret expiresIn now\<close> is
  \<^verbatim>\<open>jwt.sign(p, secret, {expiresIn})\<close> called at time \<open>now\<close>, \<open>jwt_verify lib token secret now\<close>
  is \<^verbatim>\<open>jwt.verify(token, secret)\<close>; \<open>Inl\<close> is the error thrown. \<open>timespan lib\<close> reads a
  time span such as \<^verbatim>\<open>'7d'\<close> in seconds, \<open>None\<close> when it is not one.
\<close>

record jwt_lib =
  jwt_sign :: "payload \<Rightarrow> string \<Rightarrow> string \<Rightarrow> time \<Rightarrow> js_error + string"
  jwt_verify :: "string \<Rightarrow> string \<Rightarrow> time \<Rightarrow> js_error + decoded"
  timespan :: "string \<Rightarrow> nat option"

definition JWT_SECRET :: "env \<Rightarrow> string" where
  "JWT_SECRET e = or_default (env_JWT_SECRET e) ''your-secret-key-change-in-production''"

definition JWT_EXPIRES_IN :: "env \<Rightarrow> string" where
  "JWT_EXPIRES_IN e = or_default (env_JWT_EXPIRES_IN e) ''7d''"

definition generateToken :: "jwt_lib \<Rightarrow> env \<Rightarrow> time \<Rightarrow> payload \<Rightarrow> js_error + string" where
  "generateToken lib e now p = jwt_sign lib p (JWT_SECRET e) (JWT_EXPIRES_IN e) now"

definition verifyToken :: "jwt_lib \<Rightarrow> env \<Rightarrow> time \<Rightarrow> string \<Rightarrow> js_error + decoded" where
  "verifyToken lib e now token =
     (case jwt_verify lib token (JWT_SECRET e) now of
        Inr d \<Rightarrow> Inr d
      | Inl error \<Rightarrow>
          if err_name error = ''TokenExpiredError''
          then Inl \<lparr>err_name = ''Error'', err_message = ''Token has expired''\<rparr>
          else if err_name error = ''JsonWebTokenError''
          then Inl \<lparr>err_name = ''Error'', err_message = ''Invalid token''\<rparr>
          else Inl error)"

section \<open>middleware/auth.middleware.js\<close>

text \<open>
  The file is \<^verbatim>\<open>src/unnamed/part_002\<close>. The argument is
  \<^verbatim>\<open>req.headers.authorization\<close>.
\<close>

datatype gate =
    Rejected nat string   \<comment> \<open>\<^verbatim>\<open>res.status(n).json({error})\<close>; \<^verbatim>\<open>next\<close> is not called\<close>
  | Forwarded decoded     \<comment> \<open>\<^verbatim>\<open>req.user = decoded; next()\<close>\<close>

definition authenticate :: "jwt_lib \<Rightarrow> env \<Rightarrow> time \<Rightarrow> string option \<Rightarrow> gate" where
  "authenticate lib e now authorization =
     (case authorization of
        None \<Rightarrow> Rejected 401 ''Authorization header is required''
      | Some authHeader \<Rightarrow>
          if authHeader = [] then Rejected 401 ''Authorization header is required''
          else
            let token = (if startsWith authHeader ''Bearer '' then drop 7 authHeader
                         else authHeader)
            in if token = [] then Rejected 401 ''Token is required''
               else
                 (case verifyToken lib e now token of
                    Inr d \<Rightarrow> Forwarded d
                  | Inl error \<Rightarrow>
                      Rejected 401 (if err_message error = [] then ''Invalid or expired token''
                                    else err_message error)))"

section \<open>The tables \<^verbatim>\<open>users\<close> and \<^verbatim>\<open>otps\<close>\<close>

text \<open>
  \<^verbatim>\<open>users.mobile_number\<close> and \<^verbatim>\<open>otps.user_id\<close> are unique, so each table is a map
  from that column to the rest of the row. \<open>next_user_id\<close> is the \<^verbatim>\<open>SERIAL\<close> sequence of
  \<^verbatim>\<open>users.id\<close>.
\<close>

record user_row =
  user_id :: nat
  user_created_at :: time

record otp_row =
  otp_code :: string
  otp_expiry_time :: time
  otp_mobile_number :: string
  otp_created_at :: time

record db =
  users :: "string \<rightharpoonup> user_row"
  otps :: "nat \<rightharpoonup> otp_row"
  next_user_id :: nat

definition select_otp :: "db \<Rightarrow> nat \<Rightarrow> string \<Rightarrow> otp_row option" where
  \<comment> \<open>\<^verbatim>\<open>SELECT ... FROM otps WHERE user_id = $1 AND mobile_number = $2\<close>\<close>
  "select_otp d uid mobile =
     (case otps d uid of
        None \<Rightarrow> None
      | Some row \<Rightarrow> if otp_mobile_number row = mobile then Some row else None)"

definition upsert_otp :: "db \<Rightarrow> nat \<Rightarrow> string \<Rightarrow> time \<Rightarrow> string \<Rightarrow> time \<Rightarrow> db" where
  \<comment> \<open>\<^verbatim>\<open>INSERT INTO otps ... ON CONFLICT (user_id) DO UPDATE SET otp, expiry_time, created_at\<close>\<close>
  "upsert_otp d uid code expiryTime mobile now =
     d\<lparr>otps := (otps d)(uid \<mapsto>
        (case otps d uid of
           None \<Rightarrow> \<lparr>otp_code = code, otp_expiry_time = expiryTime,
                     otp_mobile_number = mobile, otp_created_at = now\<rparr>
         | Some row \<Rightarrow> row\<lparr>otp_code := code, otp_expiry_time := expiryTime,
                            otp_created_at := now\<rparr>))\<rparr>"

definition delete_otp :: "db \<Rightarrow> nat \<Rightarrow> db" where
  \<comment> \<open>\<^verbatim>\<open>DELETE FROM otps WHERE user_id = $1\<close>\<close>
  "delete_otp d uid = d\<lparr>otps := (otps d)(uid := None)\<rparr>"

section \<open>controllers/auth.controller.js\<close>

text \<open>
  The controller is the second part of \<^verbatim>\<open>src/src/controllers/profile.controller.js\<close>
  (from line 422). A handler takes the environment, the current time, the tables and the
  request body, and returns the tables and the response; \<open>tz\<close> is the time zone of
  the process and \<open>r\<close> is the draw of
  \<^verbatim>\<open>Math.random()\<close>. Queries are taken to succeed: a failing connection is not part of
  the model. \<^verbatim>\<open>created_at\<close> defaults to the current time.
\<close>

record body =
  body_mobileNumber :: "string option"
  body_otp :: "string option"

datatype response =
    ErrorJson nat string
      \<comment> \<open>\<^verbatim>\<open>res.status(n).json({error})\<close>\<close>
  | SendOtpOk string string bool "string option"
      \<comment> \<open>status 200: message, mobileNumber, isNewUser, and otp in development mode\<close>
  | VerifyOtpOk string nat string time
      \<comment> \<open>status 200: token, user.id, user.mobileNumber, user.createdAt\<close>
  | NextError js_error
      \<comment> \<open>\<^verbatim>\<open>next(error)\<close>\<close>

definition mobileRegex :: "string \<Rightarrow> bool" where
  \<comment> \<open>\<^verbatim>\<open>/^\+?[1-9]\d{1,14}$/.test(s)\<close>\<close>
  "mobileRegex s =
     (case (case s of c # t \<Rightarrow> if c = CHR ''+'' then t else s | [] \<Rightarrow> s) of
        [] \<Rightarrow> False
      | c # ds \<Rightarrow> is_digit c \<and> c \<noteq> CHR ''0'' \<and> 1 \<le> length ds \<and> length ds \<le> 14
                   \<and> list_all is_digit ds)"

definition normalize_mobile :: "string \<Rightarrow> string" where
  \<comment> \<open>\<^verbatim>\<open>mobileNumber.startsWith('+') ? mobileNumber : `+91${mobileNumber}`\<close>\<close>
  "normalize_mobile mobile = (if startsWith mobile ''+'' then mobile else ''+91'' @ mobile)"

definition sendOtp ::
  "env \<Rightarrow> timezone \<Rightarrow> time \<Rightarrow> real \<Rightarrow> db \<Rightarrow> body \<Rightarrow> db \<times> response" where
  "sendOtp e tz now r d b =
     (case body_mobileNumber b of
        None \<Rightarrow> (d, ErrorJson 400 ''Mobile number is required'')
      | Some mobile \<Rightarrow>
          if mobile = [] then (d, ErrorJson 400 ''Mobile number is required'')
          else if \<not> mobileRegex mobile then (d, ErrorJson 400 ''Invalid mobile number format'')
          else
            let normalizedMobile = normalize_mobile mobile;
                isNewUser = (users d normalizedMobile = None);
                (d1, uid) =
                  (case users d normalizedMobile of
                     None \<Rightarrow>
                       (d\<lparr>users := (users d)(normalizedMobile \<mapsto>
                              \<lparr>user_id = next_user_id d, user_created_at = now\<rparr>),
                          next_user_id := Suc (next_user_id d)\<rparr>,
                        next_user_id d)
                   | Some u \<Rightarrow> (d, user_id u));
                dev = isDevelopment e;
                otp = (if dev then ''123456'' else generateOTP r);
                expiryTime = getOTPExpiryTime tz now;
                d2 = upsert_otp d1 uid otp expiryTime normalizedMobile now
            in (d2,
                SendOtpOk
                  (if dev then ''OTP sent successfully (DEV MODE - Use test OTP: 123456)''
                   else ''OTP sent successfully'')
                  normalizedMobile isNewUser (if dev then Some otp else None)))"

definition verifyOtp :: "jwt_lib \<Rightarrow> env \<Rightarrow> time \<Rightarrow> db \<Rightarrow> body \<Rightarrow> db \<times> response" where
  "verifyOtp lib e now d b =
     (case (body_mobileNumber b, body_otp b) of
        (Some mobile, Some otp) \<Rightarrow>
          if mobile = [] \<or> otp = []
          then (d, ErrorJson 400 ''Mobile number and OTP are required'')
          else if \<not> isValidOTPFormat otp
          then (d, ErrorJson 400 ''Invalid OTP format. OTP must be 6 digits'')
          else
            let normalizedMobile = normalize_mobile mobile in
            (case users d normalizedMobile of
               None \<Rightarrow> (d, ErrorJson 404 ''User not found. Please request OTP first'')
             | Some u \<Rightarrow>
                 let uid = user_id u;
                     rejected =
                       (if isDevelopment e \<and> otp = ''123456'' then None
                        else
                          (case select_otp d uid normalizedMobile of
                             None \<Rightarrow> Some ''OTP not found. Please request a new OTP''
                           | Some row \<Rightarrow>
                               if isOTPExpired now (otp_expiry_time row)
                               then Some ''OTP has expired. Please request a new OTP''
                               else if otp_code row \<noteq> otp then Some ''Invalid OTP''
                               else None))
                 in (case rejected of
                       Some msg \<Rightarrow> (d, ErrorJson 400 msg)
                     | None \<Rightarrow>
                         (case generateToken lib e now
                                 \<lparr>userId = uid, mobileNumber = normalizedMobile\<rparr> of
                            Inl error \<Rightarrow> (d, NextError error)
                          | Inr token \<Rightarrow>
                              (delete_otp d uid,
                               VerifyOtpOk token uid normalizedMobile (user_created_at u)))))
      | _ \<Rightarrow> (d, ErrorJson 400 ''Mobile number and OTP are required''))"

section \<open>The contract of \<^verbatim>\<open>jsonwebtoken\<close>\<close>

text \<open>
  What the service relies on from the package: \<^verbatim>\<open>'7d'\<close> is seven days; signing with a
  non-empty secret and a well-formed time span returns a token; a token verified under the
  secret it was signed with yields the payload together with \<^verbatim>\<open>iat\<close> and \<^verbatim>\<open>exp\<close>
  (in seconds) until the clock reaches \<^verbatim>\<open>exp\<close>, and \<^verbatim>\<open>TokenExpiredError\<close> from then
  on; under any other secret it yields \<^verbatim>\<open>JsonWebTokenError\<close>.
\<close>

definition jsonwebtoken_contract :: "jwt_lib \<Rightarrow> bool" where
  "jsonwebtoken_contract lib \<longleftrightarrow>
     timespan lib ''7d'' = Some 604800 \<and>
     (\<forall>p s e t. s \<noteq> [] \<and> timespan lib e \<noteq> None \<longrightarrow> (\<exists>tok. jwt_sign lib p s e t = Inr tok)) \<and>
     (\<forall>p s e t tok w t'. jwt_sign lib p s e t = Inr tok \<and> timespan lib e = Some w \<longrightarrow>
        jwt_verify lib tok s t' =
          (if t' div 1000 < t div 1000 + w
           then Inr \<lparr>userId = userId p, mobileNumber = mobileNumber p,
                     iat = t div 1000, exp_claim = t div 1000 + w\<rparr>
           else Inl \<lparr>err_name = ''TokenExpiredError'', err_message = ''jwt expired''\<rparr>)) \<and>
     (\<forall>p s e t tok s' t'. jwt_sign lib p s e t = Inr tok \<and> s' \<noteq> s \<longrightarrow>
        jwt_verify lib tok s' t' =
          Inl \<lparr>err_name = ''JsonWebTokenError'', err_message = ''invalid signature''\<rparr>)"

section \<open>A symbolic instance of the package\<close>

text \<open>
  An instance of the interface in which a token spells out its claims and the secret it was
  signed with. It shows that the contract can be met, and lets the service be evaluated at
  concrete inputs.
\<close>

definition digit_val :: "char \<Rightarrow> nat" where
  "digit_val c = length (takeWhile (\<lambda>d. d \<noteq> c) ''0123456789'')"

definition parse_nat :: "string \<Rightarrow> nat option" where
  "parse_nat s = (if s \<noteq> [] \<and> list_all is_digit s
                  then Some (foldl (\<lambda>a c. 10 * a + digit_val c) 0 s) else None)"

definition split_field :: "string \<Rightarrow> (string \<times> string) option" where
  "split_field s =
     (if CHR ''.'' \<in> set s
      then Some (takeWhile (\<lambda>c. c \<noteq> CHR ''.'') s, tl (dropWhile (\<lambda>c. c \<noteq> CHR ''.'') s))
      else None)"

definition symbolic_timespan :: "string \<Rightarrow> nat option" where
  "symbolic_timespan e =
     (if e = ''7d'' then Some 604800 else if e = ''1h'' then Some 3600 else None)"

definition symbolic_encode :: "string \<Rightarrow> nat \<Rightarrow> string \<Rightarrow> nat \<Rightarrow> nat \<Rightarrow> string" where
  "symbolic_encode s uid mobile i x =
     toString uid @ ''.'' @ toString i @ ''.'' @ toString x @ ''.''
       @ toString (length s) @ ''.'' @ s @ mobile"

definition symbolic_decode :: "string \<Rightarrow> (string \<times> nat \<times> string \<times> nat \<times> nat) option" where
  "symbolic_decode tok =
     (case split_field tok of None \<Rightarrow> None | Some (a, r1) \<Rightarrow>
      case split_field r1 of None \<Rightarrow> None | Some (b, r2) \<Rightarrow>
      case split_field r2 of None \<Rightarrow> None | Some (c, r3) \<Rightarrow>
      case split_field r3 of None \<Rightarrow> None | Some (l, r4) \<Rightarrow>
      case (parse_nat a, parse_nat b, parse_nat c, parse_nat l) of
        (Some uid, Some i, Some x, Some n) \<Rightarrow>
          if n \<le> length r4 then Some (take n r4, uid, drop n r4, i, x) else None
      | _ \<Rightarrow> None)"

definition symbolic_sign :: "payload \<Rightarrow> string \<Rightarrow> string \<Rightarrow> time \<Rightarrow> js_error + string" where
  "symbolic_sign p s e t =
     (if s = [] then Inl \<lparr>err_name = ''Error'', err_message = ''secretOrPrivateKey must have a value''\<rparr>
      else case symbolic_timespan e of
        None \<Rightarrow> Inl \<lparr>err_name = ''Error'', err_message = ''bad expiresIn''\<rparr>
      | Some w \<Rightarrow> Inr (symbolic_encode s (userId p) (mobileNumber p) (t div 1000) (t div 1000 + w)))"

definition symbolic_verify :: "string \<Rightarrow> string \<Rightarrow> time \<Rightarrow> js_error + decoded" where
  "symbolic_verify tok s t =
     (case symbolic_decode tok of
        None \<Rightarrow> Inl \<lparr>err_name = ''JsonWebTokenError'', err_message = ''jwt malformed''\<rparr>
      | Some (s0, uid, mobile, i, x) \<Rightarrow>
          if s0 \<noteq> s
          then Inl \<lparr>err_name = ''JsonWebTokenError'', err_message = ''invalid signature''\<rparr>
          else if x \<le> t div 1000
          then Inl \<lparr>err_name = ''TokenExpiredError'', err_message = ''jwt expired''\<rparr>
          else Inr \<lparr>userId = uid, mobileNumber = mobile, iat = i, exp_claim = x\<rparr>)"

definition symbolic_jwt :: jwt_lib where
  "symbolic_jwt = \<lparr>jwt_sign = symbolic_sign, jwt_verify = symbolic_verify,
                    timespan = symbolic_timespan\<rparr>"

section \<open>Concrete inputs\<close>

definition env_production :: env where
  "env_production = \<lparr>env_NODE_ENV = Some ''production'',
                       env_AWS_LAMBDA_FUNCTION_NAME = Some ''funds-projector-api'',
                       env_JWT_SECRET = Some ''s3cret'',
                       env_JWT_EXPIRES_IN = None\<rparr>"

definition env_local :: env where
  "env_local = \<lparr>env_NODE_ENV = None, env_AWS_LAMBDA_FUNCTION_NAME = None,
                  env_JWT_SECRET = None, env_JWT_EXPIRES_IN = None\<rparr>"

definition env_local_bad_window :: env where
  "env_local_bad_window = \<lparr>env_NODE_ENV = None, env_AWS_LAMBDA_FUNCTION_NAME = None,
                             env_JWT_SECRET = None, env_JWT_EXPIRES_IN = Some ''abc''\<rparr>"

definition tz_utc :: timezone where
  "tz_utc = \<lparr>LocalTZA = (\<lambda>t isUTC. 0)\<rparr>"

definition db_empty :: db where
  "db_empty = \<lparr>users = Map.empty, otps = Map.empty, next_user_id = 1\<rparr>"

definition db_user_only :: db where
  "db_user_only =
     \<lparr>users = [''+919876543210'' \<mapsto> \<lparr>user_id = 1, user_created_at = 0\<rparr>],
      otps = Map.empty, next_user_id = 2\<rparr>"

definition db_pending :: db where
  "db_pending =
     \<lparr>users = [''+919876543210'' \<mapsto> \<lparr>user_id = 1, user_created_at = 0\<rparr>],
      otps = [1 \<mapsto> \<lparr>otp_code = ''654321'', otp_expiry_time = 900000,
                       otp_mobile_number = ''+919876543210'', otp_created_at = 0\<rparr>],
      next_user_id = 2\<rparr>"

definition db_issued_local :: db where
  "db_issued_local =
     \<lparr>users = [''+919876543210'' \<mapsto> \<lparr>user_id = 1, user_created_at = 0\<rparr>],
      otps = [1 \<mapsto> \<lparr>otp_code = ''123456'', otp_expiry_time = 900000,
                       otp_mobile_number = ''+919876543210'', otp_created_at = 0\<rparr>],
      next_user_id = 2\<rparr>"

section \<open>The generated code has six digits\<close>

lemma digit_char_is_digit: "d < 10 \<Longrightarrow> is_digit (digit_char d)"
  unfolding is_digit_def digit_char_def
  by (metis nth_mem length_Cons list.size(3) eval_nat_numeral(2,3) One_nat_def
      semiring_norm(26,27,28) numeral_One)

lemma toString_nonempty: "toString n \<noteq> []"
  by (subst toString.simps) simp

lemma toString_length:
  "10 ^ k \<le> n \<Longrightarrow> n < 10 ^ Suc k \<Longrightarrow> length (toString n) = Suc k"
proof (induction k arbitrary: n)
  case 0
  then show ?case by (subst toString.simps) simp
next
  case (Suc k)
  have "(10::nat) \<le> 10 ^ Suc k" by simp
  then have ge: "10 \<le> n" using Suc.prems(1) by (rule le_trans)
  have "10 ^ k \<le> n div 10"
    using Suc.prems(1) by (simp add: less_eq_div_iff_mult_less_eq mult.commute)
  moreover have "n div 10 < 10 ^ Suc k"
    using Suc.prems(2) by (simp add: div_less_iff_less_mult mult.commute)
  ultimately have "length (toString (n div 10)) = Suc k" by (rule Suc.IH)
  with ge show ?case by (subst toString.simps) simp
qed

lemma toString_digits: "list_all is_digit (toString n)"
proof (induction n rule: toString.induct)
  case (1 n)
  show ?case
  proof (cases "n < 10")
    case True
    then show ?thesis by (subst toString.simps) (simp add: digit_char_is_digit)
  next
    case False
    with 1 show ?thesis by (subst toString.simps) (simp add: digit_char_is_digit)
  qed
qed

lemma otp_range:
  fixes r :: real
  assumes "0 \<le> r" "r < 1"
  shows "100000 \<le> nat \<lfloor>100000 + r * 900000\<rfloor>"
    and "nat \<lfloor>100000 + r * 900000\<rfloor> < 1000000"
proof -
  have "(100000::int) \<le> \<lfloor>100000 + r * 900000\<rfloor>"
    using assms(1) by (simp add: le_floor_iff)
  then show "100000 \<le> nat \<lfloor>100000 + r * 900000\<rfloor>" by linarith
  have "100000 + r * 900000 < 1000000" using assms(2) by simp
  then have "\<lfloor>100000 + r * 900000\<rfloor> < (1000000::int)" by (simp add: floor_less_iff)
  then show "nat \<lfloor>100000 + r * 900000\<rfloor> < 1000000" by linarith
qed

text \<open>
  C9. For every random draw \<open>r\<close> with \<open>0 \<le> r < 1\<close>, the generated code, the decimal
  rendering of \<open>floor (100000 + r * 900000)\<close>, has exactly six characters, all of them
  digits; it passes the service's own format check.
\<close>

theorem generateOTP_six_digits:
  "0 \<le> r \<Longrightarrow> r < 1 \<Longrightarrow>
     length (generateOTP r) = 6 \<and> list_all is_digit (generateOTP r)
     \<and> isValidOTPFormat (generateOTP r)"
  using toString_length[of 5 "nat \<lfloor>100000 + r * 900000\<rfloor>"] otp_range[of r]
  by (simp add: generateOTP_def isValidOTPFormat_def toString_digits)

theorem generateOTP_six_digits_witness:
  "(0::real) \<le> 1 / 2 \<and> (1::real) / 2 < 1 \<and> generateOTP (1 / 2) = ''550000''
   \<and> length (generateOTP (1 / 2)) = 6 \<and> isValidOTPFormat (generateOTP (1 / 2))"
  using generateOTP_six_digits[of "1 / 2"]
  by (simp add: generateOTP_def toString.simps digit_char_def)

section \<open>The symbolic instance meets the contract\<close>

lemma digit_val_digit_char: "d < 10 \<Longrightarrow> digit_val (digit_char d) = d"
proof -
  assume "d < 10"
  then have "d = 0 \<or> d = 1 \<or> d = 2 \<or> d = 3 \<or> d = 4 \<or> d = 5 \<or> d = 6 \<or> d = 7 \<or> d = 8 \<or> d = 9"
    by arith
  then show ?thesis
    by (elim disjE) (simp_all add: digit_val_def digit_char_def)
qed

lemma foldl_toString: "foldl (\<lambda>a c. 10 * a + digit_val c) 0 (toString n) = n"
proof (induction n rule: toString.induct)
  case (1 n)
  show ?case
  proof (cases "n < 10")
    case True
    then show ?thesis by (subst toString.simps) (simp add: digit_val_digit_char)
  next
    case False
    with 1 show ?thesis by (subst toString.simps) (simp add: digit_val_digit_char)
  qed
qed

lemma parse_nat_toString: "parse_nat (toString n) = Some n"
  by (simp add: parse_nat_def toString_nonempty toString_digits foldl_toString)

lemma dot_not_digit: "list_all is_digit xs \<Longrightarrow> CHR ''.'' \<notin> set xs"
proof
  assume "list_all is_digit xs" and "CHR ''.'' \<in> set xs"
  then have "is_digit (CHR ''.'')" by (simp add: list_all_iff)
  then show False by (simp add: is_digit_def)
qed

lemma split_field_append:
  "CHR ''.'' \<notin> set a \<Longrightarrow> split_field (a @ CHR ''.'' # b) = Some (a, b)"
  by (induction a) (auto simp: split_field_def)

lemma split_field_toString: "split_field (toString n @ CHR ''.'' # b) = Some (toString n, b)"
  by (rule split_field_append) (rule dot_not_digit, rule toString_digits)

lemma symbolic_decode_encode:
  "symbolic_decode (symbolic_encode s uid mobile i x) = Some (s, uid, mobile, i, x)"
  by (simp add: symbolic_decode_def symbolic_encode_def split_field_toString parse_nat_toString)

lemma symbolic_jwt_contract: "jsonwebtoken_contract symbolic_jwt"
  unfolding jsonwebtoken_contract_def
  by (auto simp: symbolic_jwt_def symbolic_sign_def symbolic_verify_def symbolic_timespan_def
      symbolic_decode_encode split: if_splits option.splits)

section \<open>Expiry of a challenge\<close>

lemma getOTPExpiryTime_fixed_offset:
  "LocalTZA tz = (\<lambda>t isUTC. c) \<Longrightarrow> getOTPExpiryTime tz now = now + 15 * 60000"
  by (simp add: getOTPExpiryTime_def LocalTime_def UTC_def)

section \<open>Format of the mobile number\<close>

lemma plus_not_digit: "\<not> is_digit (CHR ''+'')"
  by (simp add: is_digit_def)

lemma mobileRegex_iff:
  "mobileRegex s \<longleftrightarrow>
     (\<exists>c ds. (s = c # ds \<or> s = CHR ''+'' # c # ds) \<and> is_digit c \<and> c \<noteq> CHR ''0''
        \<and> 1 \<le> length ds \<and> length ds \<le> 14 \<and> list_all is_digit ds)"
proof (cases s)
  case Nil
  then show ?thesis by (simp add: mobileRegex_def)
next
  case (Cons c t)
  show ?thesis
  proof (cases "c = CHR ''+''")
    case True
    show ?thesis
    proof (cases t)
      case Nil
      with Cons True show ?thesis by (simp add: mobileRegex_def plus_not_digit)
    next
      case (Cons c' ds)
      with \<open>s = c # t\<close> True show ?thesis
        using plus_not_digit by (simp add: mobileRegex_def) blast
    qed
  next
    case False
    with Cons show ?thesis by (simp add: mobileRegex_def)
  qed
qed

lemma mobileRegex_pattern:
  "mobileRegex s \<longleftrightarrow>
     (\<exists>ds. (s = ds \<or> s = CHR ''+'' # ds) \<and> list_all is_digit ds
        \<and> 2 \<le> length ds \<and> length ds \<le> 15 \<and> hd ds \<noteq> CHR ''0'')"
  (is "_ \<longleftrightarrow> ?R")
proof
  assume "mobileRegex s"
  then obtain c ds where h: "s = c # ds \<or> s = CHR ''+'' # c # ds" "is_digit c" "c \<noteq> CHR ''0''"
      "1 \<le> length ds" "length ds \<le> 14" "list_all is_digit ds"
    unfolding mobileRegex_iff by blast
  then have "(s = c # ds \<or> s = CHR ''+'' # (c # ds)) \<and> list_all is_digit (c # ds)
        \<and> 2 \<le> length (c # ds) \<and> length (c # ds) \<le> 15 \<and> hd (c # ds) \<noteq> CHR ''0''"
    by simp
  then show ?R by blast
next
  assume ?R
  then obtain ds where h: "s = ds \<or> s = CHR ''+'' # ds" "list_all is_digit ds"
      "2 \<le> length ds" "length ds \<le> 15" "hd ds \<noteq> CHR ''0''"
    by blast
  from h(3) obtain c t where ds: "ds = c # t" by (cases ds) auto
  with h have "(s = c # t \<or> s = CHR ''+'' # c # t) \<and> is_digit c \<and> c \<noteq> CHR ''0''
        \<and> 1 \<le> length t \<and> length t \<le> 14 \<and> list_all is_digit t"
    by simp
  then show "mobileRegex s" unfolding mobileRegex_iff by blast
qed

lemma sendOtp_invalid:
  "body_mobileNumber b = Some mobile \<Longrightarrow> mobile \<noteq> [] \<Longrightarrow> \<not> mobileRegex mobile \<Longrightarrow>
     sendOtp e tz now r d b = (d, ErrorJson 400 ''Invalid mobile number format'')"
  by (simp add: sendOtp_def)

lemma sendOtp_valid:
  "body_mobileNumber b = Some mobile \<Longrightarrow> mobileRegex mobile \<Longrightarrow>
     \<exists>msg isNewUser code. snd (sendOtp e tz now r d b) = SendOtpOk msg (normalize_mobile mobile) isNewUser code"
  by (auto simp: sendOtp_def Let_def mobileRegex_def split: option.splits prod.splits)

text \<open>
  C6, as the code has it. A request passes format validation exactly when its mobile
  number is an optional \<open>+\<close> followed by 2 to 15 digits \<^emph>\<open>of which the first is not
  0\<close>; then the challenge is issued for the normalized number. Otherwise the request fails
  with a validation error (status 400) and the tables are unchanged.
\<close>

theorem sendOtp_format_validation:
  assumes "body_mobileNumber b = Some mobile"
  shows "if (\<exists>ds. (mobile = ds \<or> mobile = CHR ''+'' # ds) \<and> list_all is_digit ds
               \<and> 2 \<le> length ds \<and> length ds \<le> 15 \<and> hd ds \<noteq> CHR ''0'')
         then (\<exists>msg isNewUser code.
                 snd (sendOtp e tz now r d b) = SendOtpOk msg (normalize_mobile mobile) isNewUser code)
         else sendOtp e tz now r d b
                = (d, ErrorJson 400 (if mobile = [] then ''Mobile number is required''
                                     else ''Invalid mobile number format''))"
proof (cases "mobile = []")
  case True
  then have "\<not> mobileRegex mobile" by (simp add: mobileRegex_def)
  then have np: "\<not> (\<exists>ds. (mobile = ds \<or> mobile = CHR ''+'' # ds) \<and> list_all is_digit ds
               \<and> 2 \<le> length ds \<and> length ds \<le> 15 \<and> hd ds \<noteq> CHR ''0'')"
    unfolding mobileRegex_pattern .
  have "sendOtp e tz now r d b = (d, ErrorJson 400 ''Mobile number is required'')"
    using assms True by (simp add: sendOtp_def)
  with True show ?thesis unfolding if_not_P[OF np] by simp
next
  case False
  then show ?thesis
    using assms sendOtp_invalid[of b mobile e tz now r d] sendOtp_valid[of b mobile e tz now r d]
    unfolding mobileRegex_pattern by presburger
qed

theorem sendOtp_format_validation_witness:
  "\<exists>msg isNewUser code.
     snd (sendOtp env_production tz_utc 1000 (1 / 2) db_empty
            \<lparr>body_mobileNumber = Some ''9876543210'', body_otp = None\<rparr>)
       = SendOtpOk msg ''+919876543210'' isNewUser code"
proof -
  have "\<exists>ds. (''9876543210'' = ds \<or> ''9876543210'' = CHR ''+'' # ds) \<and> list_all is_digit ds
               \<and> 2 \<le> length ds \<and> length ds \<le> 15 \<and> hd ds \<noteq> CHR ''0''"
    by (rule exI[of _ "''9876543210''"]) (simp add: is_digit_def)
  then show ?thesis
    using sendOtp_format_validation[of "\<lparr>body_mobileNumber = Some ''9876543210'', body_otp = None\<rparr>"
        "''9876543210''" env_production tz_utc 1000 "1 / 2" db_empty]
    by (simp add: normalize_mobile_def startsWith_def)
qed

text \<open>
  C6 as stated fails: \<open>0123456789\<close> is all digits and has length 10, and is rejected.
\<close>

theorem sendOtp_leading_zero_counterexample:
  "list_all is_digit ''0123456789'' \<and> length ''0123456789'' = 10
   \<and> sendOtp env_production tz_utc 1000 (1 / 2) db_empty
        \<lparr>body_mobileNumber = Some ''0123456789'', body_otp = None\<rparr>
      = (db_empty, ErrorJson 400 ''Invalid mobile number format'')"
  by (simp add: sendOtp_def mobileRegex_def is_digit_def)

section \<open>The paths of \<^verbatim>\<open>verifyOtp\<close>\<close>

lemma isValidOTPFormat_nonempty: "isValidOTPFormat otp \<Longrightarrow> otp \<noteq> []"
  by (auto simp: isValidOTPFormat_def)

lemma test_code_valid: "isValidOTPFormat ''123456''"
  by (simp add: isValidOTPFormat_def is_digit_def)

lemma verifyOtp_bypass:
  assumes "body_mobileNumber b = Some mobile" and "mobile \<noteq> []"
    and "body_otp b = Some ''123456''" and "isDevelopment e"
    and "users d (normalize_mobile mobile) = Some u"
  shows "verifyOtp lib e now d b =
     (case generateToken lib e now
             \<lparr>userId = user_id u, mobileNumber = normalize_mobile mobile\<rparr> of
        Inl error \<Rightarrow> (d, NextError error)
      | Inr token \<Rightarrow>
          (delete_otp d (user_id u),
           VerifyOtpOk token (user_id u) (normalize_mobile mobile) (user_created_at u)))"
  using assms test_code_valid by (simp add: verifyOtp_def Let_def)

lemma verifyOtp_checked:
  assumes "body_mobileNumber b = Some mobile" and "mobile \<noteq> []"
    and "body_otp b = Some otp" and "isValidOTPFormat otp"
    and "\<not> (isDevelopment e \<and> otp = ''123456'')"
    and "users d (normalize_mobile mobile) = Some u"
  shows "verifyOtp lib e now d b =
     (case select_otp d (user_id u) (normalize_mobile mobile) of
        None \<Rightarrow> (d, ErrorJson 400 ''OTP not found. Please request a new OTP'')
      | Some row \<Rightarrow>
          if otp_expiry_time row < now
          then (d, ErrorJson 400 ''OTP has expired. Please request a new OTP'')
          else if otp_code row \<noteq> otp then (d, ErrorJson 400 ''Invalid OTP'')
          else
            (case generateToken lib e now
                    \<lparr>userId = user_id u, mobileNumber = normalize_mobile mobile\<rparr> of
               Inl error \<Rightarrow> (d, NextError error)
             | Inr token \<Rightarrow>
                 (delete_otp d (user_id u),
                  VerifyOtpOk token (user_id u) (normalize_mobile mobile) (user_created_at u))))"
  using assms isValidOTPFormat_nonempty[of otp]
  by (auto simp: verifyOtp_def Let_def isOTPExpired_def split: option.splits)

lemma verifyOtp_unknown_user:
  assumes "body_mobileNumber b = Some mobile" and "mobile \<noteq> []"
    and "body_otp b = Some otp" and "isValidOTPFormat otp"
    and "users d (normalize_mobile mobile) = None"
  shows "verifyOtp lib e now d b = (d, ErrorJson 404 ''User not found. Please request OTP first'')"
  using assms isValidOTPFormat_nonempty[of otp] by (simp add: verifyOtp_def Let_def)

lemma verifyOtp_error_frame:
  "snd (verifyOtp lib e now d b) = ErrorJson st msg \<or> snd (verifyOtp lib e now d b) = NextError err
     \<Longrightarrow> fst (verifyOtp lib e now d b) = d"
  by (auto simp: verifyOtp_def Let_def split: option.splits if_splits sum.splits)

lemma example_codes_valid: "isValidOTPFormat ''654321''" "isValidOTPFormat ''111111''"
  by (simp_all add: isValidOTPFormat_def is_digit_def)

lemma example_normalized: "normalize_mobile ''9876543210'' = ''+919876543210''"
  by (simp add: normalize_mobile_def startsWith_def)

lemma production_not_development: "\<not> isDevelopment env_production"
  by (simp add: isDevelopment_def env_production_def truthy_def)

lemma local_is_development: "isDevelopment env_local"
  by (simp add: isDevelopment_def env_local_def truthy_def)

text \<open>
  C3. A call answered with an error response leaves the tables as they were. Where the
  stored challenge is consulted (a well-formed request of a known user, the development
  bypass apart): no stored challenge gives the not-found error, a stored challenge past its
  expiry gives the expired error, a live one with another code gives the invalid error; each
  time the tables, and so the standing challenge, are unchanged.
\<close>

theorem verifyOtp_failure_keeps_challenge:
  "(\<forall>st msg. snd (verifyOtp lib e now d b) = ErrorJson st msg \<longrightarrow>
       fst (verifyOtp lib e now d b) = d)
   \<and> (body_mobileNumber b = Some mobile \<and> mobile \<noteq> [] \<and> body_otp b = Some otp
        \<and> isValidOTPFormat otp \<and> users d (normalize_mobile mobile) = Some u
        \<and> \<not> (isDevelopment e \<and> otp = ''123456'') \<longrightarrow>
       (select_otp d (user_id u) (normalize_mobile mobile) = None \<longrightarrow>
          verifyOtp lib e now d b
            = (d, ErrorJson 400 ''OTP not found. Please request a new OTP''))
       \<and> (\<forall>row. select_otp d (user_id u) (normalize_mobile mobile) = Some row
                 \<and> otp_expiry_time row < now \<longrightarrow>
          verifyOtp lib e now d b
            = (d, ErrorJson 400 ''OTP has expired. Please request a new OTP''))
       \<and> (\<forall>row. select_otp d (user_id u) (normalize_mobile mobile) = Some row
                 \<and> now \<le> otp_expiry_time row \<and> otp_code row \<noteq> otp \<longrightarrow>
          verifyOtp lib e now d b = (d, ErrorJson 400 ''Invalid OTP'')))"
proof (intro conjI allI impI)
  fix st msg
  assume "snd (verifyOtp lib e now d b) = ErrorJson st msg"
  then show "fst (verifyOtp lib e now d b) = d"
    using verifyOtp_error_frame[of lib e now d b st msg] by simp
next
  assume h: "body_mobileNumber b = Some mobile \<and> mobile \<noteq> [] \<and> body_otp b = Some otp
        \<and> isValidOTPFormat otp \<and> users d (normalize_mobile mobile) = Some u
        \<and> \<not> (isDevelopment e \<and> otp = ''123456'')"
    and "select_otp d (user_id u) (normalize_mobile mobile) = None"
  then show "verifyOtp lib e now d b
      = (d, ErrorJson 400 ''OTP not found. Please request a new OTP'')"
    using verifyOtp_checked[of b mobile otp e d u lib now] by simp
next
  fix row
  assume h: "body_mobileNumber b = Some mobile \<and> mobile \<noteq> [] \<and> body_otp b = Some otp
        \<and> isValidOTPFormat otp \<and> users d (normalize_mobile mobile) = Some u
        \<and> \<not> (isDevelopment e \<and> otp = ''123456'')"
    and "select_otp d (user_id u) (normalize_mobile mobile) = Some row
           \<and> otp_expiry_time row < now"
  then show "verifyOtp lib e now d b
      = (d, ErrorJson 400 ''OTP has expired. Please request a new OTP'')"
    using verifyOtp_checked[of b mobile otp e d u lib now] by simp
next
  fix row
  assume h: "body_mobileNumber b = Some mobile \<and> mobile \<noteq> [] \<and> body_otp b = Some otp
        \<and> isValidOTPFormat otp \<and> users d (normalize_mobile mobile) = Some u
        \<and> \<not> (isDevelopment e \<and> otp = ''123456'')"
    and "select_otp d (user_id u) (normalize_mobile mobile) = Some row
           \<and> now \<le> otp_expiry_time row \<and> otp_code row \<noteq> otp"
  then show "verifyOtp lib e now d b = (d, ErrorJson 400 ''Invalid OTP'')"
    using verifyOtp_checked[of b mobile otp e d u lib now] by simp
qed

theorem verifyOtp_failure_keeps_challenge_witness:
  "verifyOtp symbolic_jwt env_production 1000 db_user_only
       \<lparr>body_mobileNumber = Some ''9876543210'', body_otp = Some ''654321''\<rparr>
     = (db_user_only, ErrorJson 400 ''OTP not found. Please request a new OTP'')
   \<and> verifyOtp symbolic_jwt env_production 900001 db_pending
       \<lparr>body_mobileNumber = Some ''9876543210'', body_otp = Some ''654321''\<rparr>
     = (db_pending, ErrorJson 400 ''OTP has expired. Please request a new OTP'')
   \<and> verifyOtp symbolic_jwt env_production 1000 db_pending
       \<lparr>body_mobileNumber = Some ''9876543210'', body_otp = Some ''111111''\<rparr>
     = (db_pending, ErrorJson 400 ''Invalid OTP'')"
proof -
  let ?row = "\<lparr>otp_code = ''654321'', otp_expiry_time = 900000,
                 otp_mobile_number = ''+919876543210'', otp_created_at = 0\<rparr>"
  have n: "normalize_mobile ''9876543210'' = ''+919876543210''"
    by (simp add: normalize_mobile_def startsWith_def)
  have prod: "\<not> isDevelopment env_production"
    by (simp add: isDevelopment_def env_production_def truthy_def)
  have u1: "users db_user_only (normalize_mobile ''9876543210'') = Some \<lparr>user_id = 1, user_created_at = 0\<rparr>"
    by (simp add: n db_user_only_def)
  have u2: "users db_pending (normalize_mobile ''9876543210'') = Some \<lparr>user_id = 1, user_created_at = 0\<rparr>"
    by (simp add: n db_pending_def)
  have s1: "select_otp db_user_only 1 ''+919876543210'' = None"
    by (simp add: select_otp_def db_user_only_def)
  have s2: "select_otp db_pending 1 ''+919876543210'' = Some ?row"
    by (simp add: select_otp_def db_pending_def)
  have a: "verifyOtp symbolic_jwt env_production 1000 db_user_only
       \<lparr>body_mobileNumber = Some ''9876543210'', body_otp = Some ''654321''\<rparr>
     = (db_user_only, ErrorJson 400 ''OTP not found. Please request a new OTP'')"
    using verifyOtp_failure_keeps_challenge[of symbolic_jwt env_production 1000 db_user_only
        "\<lparr>body_mobileNumber = Some ''9876543210'', body_otp = Some ''654321''\<rparr>"
        "''9876543210''" "''654321''" "\<lparr>user_id = 1, user_created_at = 0\<rparr>"] u1 s1 prod example_codes_valid
    by (simp add: n)
  have b: "verifyOtp symbolic_jwt env_production 900001 db_pending
       \<lparr>body_mobileNumber = Some ''9876543210'', body_otp = Some ''654321''\<rparr>
     = (db_pending, ErrorJson 400 ''OTP has expired. Please request a new OTP'')"
    using verifyOtp_failure_keeps_challenge[of symbolic_jwt env_production 900001 db_pending
        "\<lparr>body_mobileNumber = Some ''9876543210'', body_otp = Some ''654321''\<rparr>"
        "''9876543210''" "''654321''" "\<lparr>user_id = 1, user_created_at = 0\<rparr>"] u2 s2 prod example_codes_valid
    by (simp add: n)
  have c: "verifyOtp symbolic_jwt env_production 1000 db_pending
       \<lparr>body_mobileNumber = Some ''9876543210'', body_otp = Some ''111111''\<rparr>
     = (db_pending, ErrorJson 400 ''Invalid OTP'')"
    using verifyOtp_failure_keeps_challenge[of symbolic_jwt env_production 1000 db_pending
        "\<lparr>body_mobileNumber = Some ''9876543210'', body_otp = Some ''111111''\<rparr>"
        "''9876543210''" "''111111''" "\<lparr>user_id = 1, user_created_at = 0\<rparr>"] u2 s2 prod example_codes_valid
    by (simp add: n)
  from a b c show ?thesis by simp
qed




lemma delete_otp_simps:
  "users (delete_otp d uid) = users d"
  "otps (delete_otp d uid) uid = None"
  "uid' \<noteq> uid \<Longrightarrow> otps (delete_otp d uid) uid' = otps d uid'"
  "select_otp (delete_otp d uid) uid m = None"
  "delete_otp (delete_otp d uid) uid = delete_otp d uid"
  by (simp_all add: delete_otp_def select_otp_def)

lemma minted_db:
  "(case g of Inl error \<Rightarrow> (d, NextError error)
            | Inr token \<Rightarrow> (dd, VerifyOtpOk token a m c)) = (d', VerifyOtpOk t' a' m' c')
     \<Longrightarrow> d' = dd"
  by (cases g) simp_all

text \<open>
  C5, as the code has it. A successful verification leaves no stored challenge for the
  user. Unless the development bypass applies to the code, a repeated verification with the
  same code, at any later time, fails with the not-found error.
\<close>

theorem verifyOtp_single_use:
  assumes "body_mobileNumber b = Some mobile" and "mobile \<noteq> []"
    and "body_otp b = Some otp" and "isValidOTPFormat otp"
    and "users d (normalize_mobile mobile) = Some u"
    and "verifyOtp lib e now d b = (d', VerifyOtpOk token uid m c)"
  shows "otps d' (user_id u) = None
       \<and> (\<not> (isDevelopment e \<and> otp = ''123456'') \<longrightarrow>
            verifyOtp lib e now' d' b
              = (d', ErrorJson 400 ''OTP not found. Please request a new OTP''))"
proof -
  have d': "d' = delete_otp d (user_id u)"
  proof (cases "isDevelopment e \<and> otp = ''123456''")
    case True
    then have "verifyOtp lib e now d b =
       (case generateToken lib e now
             \<lparr>userId = user_id u, mobileNumber = normalize_mobile mobile\<rparr> of
        Inl error \<Rightarrow> (d, NextError error)
      | Inr token \<Rightarrow>
          (delete_otp d (user_id u),
           VerifyOtpOk token (user_id u) (normalize_mobile mobile) (user_created_at u)))"
      using verifyOtp_bypass[of b mobile e d u lib now] assms(1-5) by simp
    with assms(6) show ?thesis by (rule_tac minted_db) simp
  next
    case False
    show ?thesis
    proof (cases "select_otp d (user_id u) (normalize_mobile mobile)")
      case None
      then show ?thesis
        using verifyOtp_checked[OF assms(1-4) False assms(5), of lib now] assms(6) by simp
    next
      case (Some row)
      then have "otp_expiry_time row < now \<or> otp_code row \<noteq> otp \<or>
        (case generateToken lib e now
             \<lparr>userId = user_id u, mobileNumber = normalize_mobile mobile\<rparr> of
        Inl error \<Rightarrow> (d, NextError error)
      | Inr token \<Rightarrow>
          (delete_otp d (user_id u),
           VerifyOtpOk token (user_id u) (normalize_mobile mobile) (user_created_at u)))
         = (d', VerifyOtpOk token uid m c)"
        using verifyOtp_checked[OF assms(1-4) False assms(5), of lib now] assms(6)
        by (simp split: if_splits)
      moreover have "\<not> otp_expiry_time row < now"
        using Some verifyOtp_checked[OF assms(1-4) False assms(5), of lib now] assms(6)
        by (simp split: if_splits)
      moreover have "\<not> otp_code row \<noteq> otp"
        using Some verifyOtp_checked[OF assms(1-4) False assms(5), of lib now] assms(6)
        by (simp split: if_splits)
      ultimately show ?thesis by (rule_tac minted_db) simp
    qed
  qed
  have u': "users d' (normalize_mobile mobile) = Some u"
    using assms(5) by (simp add: d' delete_otp_simps)
  show ?thesis
  proof (intro conjI impI)
    show "otps d' (user_id u) = None" by (simp add: d' delete_otp_simps)
  next
    assume nb: "\<not> (isDevelopment e \<and> otp = ''123456'')"
    show "verifyOtp lib e now' d' b
            = (d', ErrorJson 400 ''OTP not found. Please request a new OTP'')"
      using verifyOtp_checked[OF assms(1-4) nb u', of lib now']
      by (simp add: d' delete_otp_simps)
  qed
qed

lemma production_accepts:
  "verifyOtp symbolic_jwt env_production 1000 db_pending
       \<lparr>body_mobileNumber = Some ''9876543210'', body_otp = Some ''654321''\<rparr>
     = (delete_otp db_pending 1,
        VerifyOtpOk ''1.1.604801.6.s3cret+919876543210'' 1 ''+919876543210'' 0)"
  by (simp add: verifyOtp_def Let_def isValidOTPFormat_def is_digit_def normalize_mobile_def
      startsWith_def db_pending_def production_not_development select_otp_def isOTPExpired_def
      generateToken_def JWT_SECRET_def JWT_EXPIRES_IN_def or_default_def env_production_def
      symbolic_jwt_def symbolic_sign_def symbolic_timespan_def symbolic_encode_def
      toString.simps digit_char_def)

theorem verifyOtp_single_use_witness:
  "otps (delete_otp db_pending 1) 1 = None
   \<and> verifyOtp symbolic_jwt env_production 2000 (delete_otp db_pending 1)
       \<lparr>body_mobileNumber = Some ''9876543210'', body_otp = Some ''654321''\<rparr>
     = (delete_otp db_pending 1, ErrorJson 400 ''OTP not found. Please request a new OTP'')"
proof -
  let ?b = "\<lparr>body_mobileNumber = Some ''9876543210'', body_otp = Some ''654321''\<rparr>"
  have u: "users db_pending (normalize_mobile ''9876543210'')
             = Some \<lparr>user_id = 1, user_created_at = 0\<rparr>"
    by (simp add: example_normalized db_pending_def)
  have b1: "body_mobileNumber ?b = Some ''9876543210''" and b2: "''9876543210'' \<noteq> []"
    and b3: "body_otp ?b = Some ''654321''" by simp_all
  show ?thesis
    using verifyOtp_single_use[OF b1 b2 b3 example_codes_valid(1) u production_accepts, of 2000]
      production_not_development
    by simp
qed

text \<open>
  C5 as stated fails in development mode: the challenge issued there holds the test code,
  the test code is accepted, and the same code is accepted again afterwards although the
  stored challenge is gone.
\<close>

theorem verifyOtp_repeat_development_counterexample:
  "fst (sendOtp env_local tz_utc 0 (1 / 2) db_empty
          \<lparr>body_mobileNumber = Some ''9876543210'', body_otp = None\<rparr>) = db_issued_local
   \<and> verifyOtp symbolic_jwt env_local 1000 db_issued_local
         \<lparr>body_mobileNumber = Some ''9876543210'', body_otp = Some ''123456''\<rparr>
       = (delete_otp db_issued_local 1,
          VerifyOtpOk ''1.1.604801.36.your-secret-key-change-in-production+919876543210''
            1 ''+919876543210'' 0)
   \<and> verifyOtp symbolic_jwt env_local 2000 (delete_otp db_issued_local 1)
         \<lparr>body_mobileNumber = Some ''9876543210'', body_otp = Some ''123456''\<rparr>
       = (delete_otp db_issued_local 1,
          VerifyOtpOk ''1.2.604802.36.your-secret-key-change-in-production+919876543210''
            1 ''+919876543210'' 0)"
  by (simp add: verifyOtp_def sendOtp_def mobileRegex_def upsert_otp_def getOTPExpiryTime_def
      LocalTime_def UTC_def tz_utc_def db_empty_def delete_otp_def
      Let_def isValidOTPFormat_def is_digit_def normalize_mobile_def
      startsWith_def db_issued_local_def isDevelopment_def truthy_def
      generateToken_def JWT_SECRET_def JWT_EXPIRES_IN_def or_default_def env_local_def
      symbolic_jwt_def symbolic_sign_def symbolic_timespan_def symbolic_encode_def
      toString.simps digit_char_def)

section \<open>Development mode\<close>

lemma JWT_SECRET_nonempty: "JWT_SECRET e \<noteq> []"
  by (simp add: JWT_SECRET_def or_default_def split: option.splits)

lemma generateToken_succeeds:
  assumes "jsonwebtoken_contract lib" and "timespan lib (JWT_EXPIRES_IN e) \<noteq> None"
  shows "\<exists>token. generateToken lib e now p = Inr token"
proof -
  from assms(1) have "\<forall>p s e t. s \<noteq> [] \<and> timespan lib e \<noteq> None
                         \<longrightarrow> (\<exists>tok. jwt_sign lib p s e t = Inr tok)"
    unfolding jsonwebtoken_contract_def by blast
  then show ?thesis
    unfolding generateToken_def using JWT_SECRET_nonempty[of e] assms(2) by blast
qed

lemma sendOtp_development:
  assumes "isDevelopment e" and "body_mobileNumber b = Some mobile" and "mobileRegex mobile"
  shows "\<exists>isNewUser u row.
           snd (sendOtp e tz now r d b)
             = SendOtpOk ''OTP sent successfully (DEV MODE - Use test OTP: 123456)''
                 (normalize_mobile mobile) isNewUser (Some ''123456'')
           \<and> users (fst (sendOtp e tz now r d b)) (normalize_mobile mobile) = Some u
           \<and> otps (fst (sendOtp e tz now r d b)) (user_id u) = Some row
           \<and> otp_code row = ''123456''"
proof -
  from assms(3) have ne: "mobile \<noteq> []" by (auto simp: mobileRegex_def)
  show ?thesis
  proof (cases "users d (normalize_mobile mobile)")
    case None
    then show ?thesis using assms ne
      by (auto simp: sendOtp_def Let_def upsert_otp_def split: option.splits)
  next
    case (Some u)
    then show ?thesis using assms ne
      by (auto simp: sendOtp_def Let_def upsert_otp_def split: option.splits)
  qed
qed

text \<open>
  C1, as the code has it. When \<^verbatim>\<open>AWS_LAMBDA_FUNCTION_NAME\<close> is unset, development
  mode is active whatever \<^verbatim>\<open>NODE_ENV\<close> is. Then a verification with the code
  \<open>123456\<close> fails with the user-not-found error for an unknown number; for a known user
  it goes straight to the signing of the token, whatever the stored challenge is and also
  when there is none: it succeeds with the token when signing returns one, and passes the
  error on, leaving the tables unchanged, when signing throws. Signing returns a token when
  the package meets its contract and the configured time span is well-formed. A challenge
  issued for a well-formed number stores the code \<open>123456\<close> and returns it in the
  response.
\<close>

theorem development_mode_from_environment:
  assumes "env_AWS_LAMBDA_FUNCTION_NAME e = None"
  shows "isDevelopment e
     \<and> (body_mobileNumber b = Some mobile \<and> mobile \<noteq> [] \<and> body_otp b = Some ''123456'' \<longrightarrow>
          (users d (normalize_mobile mobile) = None \<longrightarrow>
             verifyOtp lib e now d b
               = (d, ErrorJson 404 ''User not found. Please request OTP first''))
        \<and> (\<forall>u. users d (normalize_mobile mobile) = Some u \<longrightarrow>
             verifyOtp lib e now d b =
               (case generateToken lib e now
                       \<lparr>userId = user_id u, mobileNumber = normalize_mobile mobile\<rparr> of
                  Inl error \<Rightarrow> (d, NextError error)
                | Inr token \<Rightarrow>
                    (delete_otp d (user_id u),
                     VerifyOtpOk token (user_id u) (normalize_mobile mobile)
                       (user_created_at u))))
        \<and> (\<forall>u. users d (normalize_mobile mobile) = Some u \<and> jsonwebtoken_contract lib
                 \<and> timespan lib (JWT_EXPIRES_IN e) \<noteq> None \<longrightarrow>
             (\<exists>token.
                generateToken lib e now
                    \<lparr>userId = user_id u, mobileNumber = normalize_mobile mobile\<rparr> = Inr token
                \<and> verifyOtp lib e now d b
                    = (delete_otp d (user_id u),
                       VerifyOtpOk token (user_id u) (normalize_mobile mobile)
                         (user_created_at u)))))
     \<and> (body_mobileNumber b = Some mobile \<and> mobileRegex mobile \<longrightarrow>
          (\<exists>isNewUser u row.
             snd (sendOtp e tz now r d b)
               = SendOtpOk ''OTP sent successfully (DEV MODE - Use test OTP: 123456)''
                   (normalize_mobile mobile) isNewUser (Some ''123456'')
             \<and> users (fst (sendOtp e tz now r d b)) (normalize_mobile mobile) = Some u
             \<and> otps (fst (sendOtp e tz now r d b)) (user_id u) = Some row
             \<and> otp_code row = ''123456''))"
proof -
  have dev: "isDevelopment e"
    using assms by (simp add: isDevelopment_def truthy_def)
  have unknown: "verifyOtp lib e now d b
               = (d, ErrorJson 404 ''User not found. Please request OTP first'')"
    if "body_mobileNumber b = Some mobile \<and> mobile \<noteq> [] \<and> body_otp b = Some ''123456''"
      and "users d (normalize_mobile mobile) = None"
    using that verifyOtp_unknown_user[of b mobile "''123456''" d lib e now] test_code_valid
    by simp
  have known: "\<exists>token.
                generateToken lib e now
                    \<lparr>userId = user_id u, mobileNumber = normalize_mobile mobile\<rparr> = Inr token
                \<and> verifyOtp lib e now d b
                    = (delete_otp d (user_id u),
                       VerifyOtpOk token (user_id u) (normalize_mobile mobile)
                         (user_created_at u))"
    if h: "body_mobileNumber b = Some mobile \<and> mobile \<noteq> [] \<and> body_otp b = Some ''123456''"
      and k: "users d (normalize_mobile mobile) = Some u \<and> jsonwebtoken_contract lib
                 \<and> timespan lib (JWT_EXPIRES_IN e) \<noteq> None"
    for u
  proof -
    from k obtain token where t: "generateToken lib e now
          \<lparr>userId = user_id u, mobileNumber = normalize_mobile mobile\<rparr> = Inr token"
      using generateToken_succeeds by blast
    then show ?thesis
      using verifyOtp_bypass[of b mobile e d u lib now] h k dev by simp
  qed
  have known_case: "verifyOtp lib e now d b =
               (case generateToken lib e now
                       \<lparr>userId = user_id u, mobileNumber = normalize_mobile mobile\<rparr> of
                  Inl error \<Rightarrow> (d, NextError error)
                | Inr token \<Rightarrow>
                    (delete_otp d (user_id u),
                     VerifyOtpOk token (user_id u) (normalize_mobile mobile)
                       (user_created_at u)))"
    if "body_mobileNumber b = Some mobile \<and> mobile \<noteq> [] \<and> body_otp b = Some ''123456''"
      and "users d (normalize_mobile mobile) = Some u"
    for u
    using that verifyOtp_bypass[of b mobile e d u lib now] dev by simp
  from dev unknown known_case known sendOtp_development[OF dev, of b mobile tz now r d]
  show ?thesis by blast
qed


theorem development_mode_from_environment_witness:
  "isDevelopment env_local
   \<and> verifyOtp symbolic_jwt env_local 1000 db_empty
         \<lparr>body_mobileNumber = Some ''9876543210'', body_otp = Some ''123456''\<rparr>
       = (db_empty, ErrorJson 404 ''User not found. Please request OTP first'')
   \<and> (\<exists>token. verifyOtp symbolic_jwt env_local 1000 db_user_only
         \<lparr>body_mobileNumber = Some ''9876543210'', body_otp = Some ''123456''\<rparr>
       = (delete_otp db_user_only 1, VerifyOtpOk token 1 ''+919876543210'' 0))
   \<and> (\<exists>isNewUser.
         snd (sendOtp env_local tz_utc 0 (1 / 2) db_empty
                \<lparr>body_mobileNumber = Some ''9876543210'', body_otp = Some ''123456''\<rparr>)
           = SendOtpOk ''OTP sent successfully (DEV MODE - Use test OTP: 123456)''
               ''+919876543210'' isNewUser (Some ''123456''))"
proof -
  let ?b = "\<lparr>body_mobileNumber = Some ''9876543210'', body_otp = Some ''123456''\<rparr>"
  have a: "env_AWS_LAMBDA_FUNCTION_NAME env_local = None" by (simp add: env_local_def)
  have ts: "timespan symbolic_jwt (JWT_EXPIRES_IN env_local) \<noteq> None"
    by (simp add: symbolic_jwt_def symbolic_timespan_def JWT_EXPIRES_IN_def or_default_def
        env_local_def)
  have re: "mobileRegex ''9876543210''" by (simp add: mobileRegex_def is_digit_def)
  have u0: "users db_empty ''+919876543210'' = None" by (simp add: db_empty_def)
  have u1: "users db_user_only ''+919876543210'' = Some \<lparr>user_id = 1, user_created_at = 0\<rparr>"
    by (simp add: db_user_only_def)
  note t0 = development_mode_from_environment[OF a, of ?b "''9876543210''" db_empty
      symbolic_jwt 1000 tz_utc "1 / 2"]
  note t1 = development_mode_from_environment[OF a, of ?b "''9876543210''" db_user_only
      symbolic_jwt 1000 tz_utc "1 / 2"]
  note t2 = development_mode_from_environment[OF a, of ?b "''9876543210''" db_empty
      symbolic_jwt 0 tz_utc "1 / 2"]
  have c1: "isDevelopment env_local" using t0 by simp
  have c2: "verifyOtp symbolic_jwt env_local 1000 db_empty ?b
       = (db_empty, ErrorJson 404 ''User not found. Please request OTP first'')"
    using t0 u0 by (simp add: example_normalized)
  have c3: "\<exists>token. verifyOtp symbolic_jwt env_local 1000 db_user_only ?b
       = (delete_otp db_user_only 1, VerifyOtpOk token 1 ''+919876543210'' 0)"
    using t1 u1 ts symbolic_jwt_contract by (auto simp: example_normalized)
  have c4: "\<exists>isNewUser.
         snd (sendOtp env_local tz_utc 0 (1 / 2) db_empty ?b)
           = SendOtpOk ''OTP sent successfully (DEV MODE - Use test OTP: 123456)''
               ''+919876543210'' isNewUser (Some ''123456'')"
    using t2 re by (auto simp: example_normalized)
  from c1 c2 c3 c4 show ?thesis by blast
qed

text \<open>
  C1 as stated fails: with \<^verbatim>\<open>AWS_LAMBDA_FUNCTION_NAME\<close> unset and
  \<^verbatim>\<open>JWT_EXPIRES_IN\<close> set to \<open>abc\<close>, signing throws, and the verification of a
  known user with the code \<open>123456\<close> ends in the error handler without a token.
\<close>

theorem development_bypass_signing_failure_counterexample:
  "env_AWS_LAMBDA_FUNCTION_NAME env_local_bad_window = None
   \<and> users db_user_only ''+919876543210'' = Some \<lparr>user_id = 1, user_created_at = 0\<rparr>
   \<and> verifyOtp symbolic_jwt env_local_bad_window 1000 db_user_only
         \<lparr>body_mobileNumber = Some ''+919876543210'', body_otp = Some ''123456''\<rparr>
       = (db_user_only, NextError \<lparr>err_name = ''Error'', err_message = ''bad expiresIn''\<rparr>)"
  by (simp add: verifyOtp_def Let_def isValidOTPFormat_def is_digit_def normalize_mobile_def
      startsWith_def db_user_only_def isDevelopment_def truthy_def
      generateToken_def JWT_SECRET_def JWT_EXPIRES_IN_def or_default_def
      env_local_bad_window_def symbolic_jwt_def symbolic_sign_def symbolic_timespan_def)

text \<open>
  C2, as the code has it. In development mode a verification of a known user with the
  test code does not read the stored challenge: it goes straight to the signing of the
  token, and its response is the same whatever the \<^verbatim>\<open>otps\<close> table holds. It succeeds
  when signing returns a token, as it does when the package meets its contract and the
  configured time span is well-formed; when signing throws, the error is passed on and the
  tables are unchanged. It does write: when it succeeds, the user's stored challenge is
  deleted. The rows of other users and the \<^verbatim>\<open>users\<close> table are unchanged.
\<close>

theorem development_bypass_store_effect:
  assumes "body_mobileNumber b = Some mobile" and "mobile \<noteq> []"
    and "body_otp b = Some ''123456''" and "isDevelopment e"
    and "users d (normalize_mobile mobile) = Some u"
  shows "verifyOtp lib e now d b =
           (case generateToken lib e now
                   \<lparr>userId = user_id u, mobileNumber = normalize_mobile mobile\<rparr> of
              Inl error \<Rightarrow> (d, NextError error)
            | Inr token \<Rightarrow>
                (delete_otp d (user_id u),
                 VerifyOtpOk token (user_id u) (normalize_mobile mobile) (user_created_at u)))
       \<and> (jsonwebtoken_contract lib \<and> timespan lib (JWT_EXPIRES_IN e) \<noteq> None \<longrightarrow>
            (\<exists>token. verifyOtp lib e now d b
               = (delete_otp d (user_id u),
                  VerifyOtpOk token (user_id u) (normalize_mobile mobile) (user_created_at u))))
       \<and> snd (verifyOtp lib e now (d\<lparr>otps := stored\<rparr>) b) = snd (verifyOtp lib e now d b)
       \<and> (\<forall>token uid m c. snd (verifyOtp lib e now d b) = VerifyOtpOk token uid m c \<longrightarrow>
            fst (verifyOtp lib e now d b) = delete_otp d (user_id u)
            \<and> otps (fst (verifyOtp lib e now d b)) (user_id u) = None)
       \<and> (\<forall>uid. uid \<noteq> user_id u \<longrightarrow>
            otps (fst (verifyOtp lib e now d b)) uid = otps d uid)
       \<and> users (fst (verifyOtp lib e now d b)) = users d"
proof -
  have u': "users (d\<lparr>otps := stored\<rparr>) (normalize_mobile mobile) = Some u"
    using assms(5) by simp
  note v = verifyOtp_bypass[OF assms(1-4) assms(5), of lib now]
  note v' = verifyOtp_bypass[OF assms(1-4) u', of lib now]
  have ok: "\<exists>token. verifyOtp lib e now d b
               = (delete_otp d (user_id u),
                  VerifyOtpOk token (user_id u) (normalize_mobile mobile) (user_created_at u))"
    if "jsonwebtoken_contract lib \<and> timespan lib (JWT_EXPIRES_IN e) \<noteq> None"
  proof -
    from that obtain token where "generateToken lib e now
          \<lparr>userId = user_id u, mobileNumber = normalize_mobile mobile\<rparr> = Inr token"
      using generateToken_succeeds by blast
    then show ?thesis by (simp add: v)
  qed
  have rest: "snd (verifyOtp lib e now (d\<lparr>otps := stored\<rparr>) b) = snd (verifyOtp lib e now d b)
       \<and> (\<forall>token uid m c. snd (verifyOtp lib e now d b) = VerifyOtpOk token uid m c \<longrightarrow>
            fst (verifyOtp lib e now d b) = delete_otp d (user_id u)
            \<and> otps (fst (verifyOtp lib e now d b)) (user_id u) = None)
       \<and> (\<forall>uid. uid \<noteq> user_id u \<longrightarrow>
            otps (fst (verifyOtp lib e now d b)) uid = otps d uid)
       \<and> users (fst (verifyOtp lib e now d b)) = users d"
  proof (cases "generateToken lib e now
                  \<lparr>userId = user_id u, mobileNumber = normalize_mobile mobile\<rparr>")
    case (Inl error)
    then show ?thesis by (simp add: v v')
  next
    case (Inr token)
    then show ?thesis by (simp add: v v' delete_otp_simps)
  qed
  from v ok rest show ?thesis by blast
qed

lemma local_token:
  "generateToken symbolic_jwt env_local 1000
      \<lparr>userId = 1, mobileNumber = ''+919876543210''\<rparr>
     = Inr ''1.1.604801.36.your-secret-key-change-in-production+919876543210''"
  by (simp add: generateToken_def JWT_SECRET_def JWT_EXPIRES_IN_def or_default_def
      env_local_def symbolic_jwt_def symbolic_sign_def symbolic_timespan_def
      symbolic_encode_def toString.simps digit_char_def)

theorem development_bypass_store_effect_witness:
  "verifyOtp symbolic_jwt env_local 1000 db_pending
       \<lparr>body_mobileNumber = Some ''9876543210'', body_otp = Some ''123456''\<rparr>
     = (delete_otp db_pending 1,
        VerifyOtpOk ''1.1.604801.36.your-secret-key-change-in-production+919876543210''
          1 ''+919876543210'' 0)
   \<and> otps (delete_otp db_pending 1) 1 = None
   \<and> snd (verifyOtp symbolic_jwt env_local 1000 db_user_only
          \<lparr>body_mobileNumber = Some ''9876543210'', body_otp = Some ''123456''\<rparr>)
     = VerifyOtpOk ''1.1.604801.36.your-secret-key-change-in-production+919876543210''
         1 ''+919876543210'' 0"
proof -
  let ?b = "\<lparr>body_mobileNumber = Some ''9876543210'', body_otp = Some ''123456''\<rparr>"
  have u: "users db_pending (normalize_mobile ''9876543210'')
             = Some \<lparr>user_id = 1, user_created_at = 0\<rparr>"
    by (simp add: example_normalized db_pending_def)
  have b1: "body_mobileNumber ?b = Some ''9876543210''" and b2: "''9876543210'' \<noteq> []"
    and b3: "body_otp ?b = Some ''123456''" by simp_all
  have eq: "db_pending\<lparr>otps := Map.empty\<rparr> = db_user_only"
    by (simp add: db_pending_def db_user_only_def)
  note t = development_bypass_store_effect[OF b1 b2 b3 local_is_development u,
      of symbolic_jwt 1000 Map.empty]
  have tk: "generateToken symbolic_jwt env_local 1000
               \<lparr>userId = user_id \<lparr>user_id = 1, user_created_at = 0\<rparr>,
                  mobileNumber = normalize_mobile ''9876543210''\<rparr>
              = Inr ''1.1.604801.36.your-secret-key-change-in-production+919876543210''"
    using local_token by (simp add: example_normalized)
  have a: "verifyOtp symbolic_jwt env_local 1000 db_pending ?b
     = (delete_otp db_pending 1,
        VerifyOtpOk ''1.1.604801.36.your-secret-key-change-in-production+919876543210''
          1 ''+919876543210'' 0)"
    using conjunct1[OF t] unfolding tk by (simp add: example_normalized)
  from t have "snd (verifyOtp symbolic_jwt env_local 1000 db_user_only ?b)
     = snd (verifyOtp symbolic_jwt env_local 1000 db_pending ?b)"
    by (simp add: eq)
  with a have c: "snd (verifyOtp symbolic_jwt env_local 1000 db_user_only ?b)
     = VerifyOtpOk ''1.1.604801.36.your-secret-key-change-in-production+919876543210''
         1 ''+919876543210'' 0"
    by simp
  from t a have b: "otps (delete_otp db_pending 1) 1 = None"
    by simp
  from a b c show ?thesis by simp
qed

text \<open>
  C2 as stated fails. The user's stored challenge is there before a development-mode
  verification with the test code and gone after it. And with \<^verbatim>\<open>JWT_EXPIRES_IN\<close> set to
  \<open>abc\<close> signing throws, and the verification does not succeed.
\<close>

theorem development_bypass_deletes_counterexample:
  "otps db_pending 1
     = Some \<lparr>otp_code = ''654321'', otp_expiry_time = 900000,
             otp_mobile_number = ''+919876543210'', otp_created_at = 0\<rparr>
   \<and> snd (verifyOtp symbolic_jwt env_local 1000 db_pending
            \<lparr>body_mobileNumber = Some ''9876543210'', body_otp = Some ''123456''\<rparr>)
     = VerifyOtpOk ''1.1.604801.36.your-secret-key-change-in-production+919876543210''
         1 ''+919876543210'' 0
   \<and> otps (fst (verifyOtp symbolic_jwt env_local 1000 db_pending
            \<lparr>body_mobileNumber = Some ''9876543210'', body_otp = Some ''123456''\<rparr>)) 1
     = None
   \<and> verifyOtp symbolic_jwt env_local_bad_window 1000 db_pending
        \<lparr>body_mobileNumber = Some ''9876543210'', body_otp = Some ''123456''\<rparr>
     = (db_pending, NextError \<lparr>err_name = ''Error'', err_message = ''bad expiresIn''\<rparr>)"
  by (simp add: verifyOtp_def delete_otp_def
      Let_def isValidOTPFormat_def is_digit_def normalize_mobile_def
      startsWith_def db_pending_def isDevelopment_def truthy_def
      generateToken_def JWT_SECRET_def JWT_EXPIRES_IN_def or_default_def env_local_def
      env_local_bad_window_def
      symbolic_jwt_def symbolic_sign_def symbolic_timespan_def symbolic_encode_def
      toString.simps digit_char_def)

section \<open>Tokens and the access gate\<close>

lemma verifyToken_error_classes:
  "jwt_verify lib token (JWT_SECRET e) now = Inl err \<Longrightarrow>
     verifyToken lib e now token =
       (if err_name err = ''TokenExpiredError''
        then Inl \<lparr>err_name = ''Error'', err_message = ''Token has expired''\<rparr>
        else if err_name err = ''JsonWebTokenError''
        then Inl \<lparr>err_name = ''Error'', err_message = ''Invalid token''\<rparr>
        else Inl err)"
  by (simp add: verifyToken_def)

lemma verifyToken_issued:
  assumes "jsonwebtoken_contract lib" and "generateToken lib e t p = Inr token"
    and "timespan lib (JWT_EXPIRES_IN e) = Some w"
  shows "verifyToken lib e t' token =
           (if t' div 1000 < t div 1000 + w
            then Inr \<lparr>userId = userId p, mobileNumber = mobileNumber p,
                      iat = t div 1000, exp_claim = t div 1000 + w\<rparr>
            else Inl \<lparr>err_name = ''Error'', err_message = ''Token has expired''\<rparr>)"
proof -
  from assms(1) have "\<forall>p s e t tok w t'. jwt_sign lib p s e t = Inr tok \<and> timespan lib e = Some w \<longrightarrow>
        jwt_verify lib tok s t' =
          (if t' div 1000 < t div 1000 + w
           then Inr \<lparr>userId = userId p, mobileNumber = mobileNumber p,
                     iat = t div 1000, exp_claim = t div 1000 + w\<rparr>
           else Inl \<lparr>err_name = ''TokenExpiredError'', err_message = ''jwt expired''\<rparr>)"
    unfolding jsonwebtoken_contract_def by blast
  then have "jwt_verify lib token (JWT_SECRET e) t' =
          (if t' div 1000 < t div 1000 + w
           then Inr \<lparr>userId = userId p, mobileNumber = mobileNumber p,
                     iat = t div 1000, exp_claim = t div 1000 + w\<rparr>
           else Inl \<lparr>err_name = ''TokenExpiredError'', err_message = ''jwt expired''\<rparr>)"
    using assms(2,3) unfolding generateToken_def by blast
  then show ?thesis by (simp add: verifyToken_def)
qed

lemma verifyToken_other_secret:
  assumes "jsonwebtoken_contract lib" and "generateToken lib e t p = Inr token"
    and "JWT_SECRET e' \<noteq> JWT_SECRET e"
  shows "verifyToken lib e' t' token
           = Inl \<lparr>err_name = ''Error'', err_message = ''Invalid token''\<rparr>"
proof -
  from assms(1) have "\<forall>p s e t tok s' t'. jwt_sign lib p s e t = Inr tok \<and> s' \<noteq> s \<longrightarrow>
        jwt_verify lib tok s' t' =
          Inl \<lparr>err_name = ''JsonWebTokenError'', err_message = ''invalid signature''\<rparr>"
    unfolding jsonwebtoken_contract_def by blast
  then have "jwt_verify lib token (JWT_SECRET e') t' =
          Inl \<lparr>err_name = ''JsonWebTokenError'', err_message = ''invalid signature''\<rparr>"
    using assms(2,3) unfolding generateToken_def by blast
  then show ?thesis by (simp add: verifyToken_def)
qed

lemma default_window:
  "jsonwebtoken_contract lib \<Longrightarrow> \<not> truthy (env_JWT_EXPIRES_IN e) \<Longrightarrow>
     timespan lib (JWT_EXPIRES_IN e) = Some 604800"
  by (auto simp: jsonwebtoken_contract_def JWT_EXPIRES_IN_def or_default_def truthy_def
      split: option.splits)

lemma authenticate_missing:
  "\<not> truthy h \<Longrightarrow> authenticate lib e now h = Rejected 401 ''Authorization header is required''"
  by (simp add: authenticate_def truthy_def split: option.splits)

lemma authenticate_present:
  "a \<noteq> [] \<Longrightarrow>
     authenticate lib e now (Some a) =
       (if (if startsWith a ''Bearer '' then drop 7 a else a) = []
        then Rejected 401 ''Token is required''
        else case verifyToken lib e now (if startsWith a ''Bearer '' then drop 7 a else a) of
               Inr d \<Rightarrow> Forwarded d
             | Inl error \<Rightarrow>
                 Rejected 401 (if err_message error = [] then ''Invalid or expired token''
                               else err_message error))"
  by (simp add: authenticate_def Let_def)

lemma authenticate_forwarded:
  assumes "authenticate lib e now h = Forwarded d"
  shows "\<exists>a. h = Some a
            \<and> verifyToken lib e now (if startsWith a ''Bearer '' then drop 7 a else a) = Inr d"
proof (cases h)
  case None
  with assms show ?thesis by (simp add: authenticate_def)
next
  case (Some a)
  show ?thesis
  proof (cases "a = []")
    case True
    with Some assms show ?thesis by (simp add: authenticate_def)
  next
    case False
    with Some assms show ?thesis
      by (simp add: authenticate_present split: if_splits sum.splits)
  qed
qed

lemma authenticate_bearer_prefix:
  "token \<noteq> [] \<Longrightarrow> \<not> startsWith token ''Bearer '' \<Longrightarrow>
     authenticate lib e now (Some (''Bearer '' @ token)) = authenticate lib e now (Some token)"
  by (simp add: authenticate_present) (simp add: startsWith_def)

text \<open>
  C7. The gate rejects a request whose \<^verbatim>\<open>Authorization\<close> header is missing or empty,
  and one whose extracted token is empty, with status 401 and without forwarding. The token
  is what follows \<open>Bearer \<close> when the header starts with it, and the whole header
  otherwise, so a bare token is treated as the prefixed one. When the token verifies, the
  decoded identity is attached and the request forwarded; a token issued by the service is
  forwarded with the \<open>userId\<close> and \<open>mobileNumber\<close> it was issued for. When verification
  fails, the request is rejected with the error's message (\<open>Token has expired\<close>,
  \<open>Invalid token\<close>); a request is forwarded only when its token verifies.
\<close>

theorem authenticate_gate:
  "(\<not> truthy h \<longrightarrow> authenticate lib e now h = Rejected 401 ''Authorization header is required'')
   \<and> (\<forall>a. h = Some a \<and> a \<noteq> [] \<longrightarrow>
        (let token = (if startsWith a ''Bearer '' then drop 7 a else a) in
           (token = [] \<longrightarrow> authenticate lib e now h = Rejected 401 ''Token is required'')
         \<and> (\<forall>d. token \<noteq> [] \<and> verifyToken lib e now token = Inr d \<longrightarrow>
               authenticate lib e now h = Forwarded d)
         \<and> (\<forall>err. token \<noteq> [] \<and> verifyToken lib e now token = Inl err \<longrightarrow>
               authenticate lib e now h
                 = Rejected 401 (if err_message err = [] then ''Invalid or expired token''
                                 else err_message err))
         \<and> (\<forall>err. token \<noteq> [] \<and> jwt_verify lib token (JWT_SECRET e) now = Inl err
                    \<and> err_name err = ''TokenExpiredError'' \<longrightarrow>
               authenticate lib e now h = Rejected 401 ''Token has expired'')
         \<and> (\<forall>err. token \<noteq> [] \<and> jwt_verify lib token (JWT_SECRET e) now = Inl err
                    \<and> err_name err = ''JsonWebTokenError'' \<longrightarrow>
               authenticate lib e now h = Rejected 401 ''Invalid token'')))
   \<and> (\<forall>d. authenticate lib e now h = Forwarded d \<longrightarrow>
         (\<exists>a. h = Some a
            \<and> verifyToken lib e now (if startsWith a ''Bearer '' then drop 7 a else a) = Inr d))
   \<and> (\<forall>token. token \<noteq> [] \<and> \<not> startsWith token ''Bearer '' \<longrightarrow>
         authenticate lib e now (Some (''Bearer '' @ token))
           = authenticate lib e now (Some token))
   \<and> (\<forall>p t w token. jsonwebtoken_contract lib \<and> generateToken lib e t p = Inr token
          \<and> token \<noteq> [] \<and> timespan lib (JWT_EXPIRES_IN e) = Some w
          \<and> now div 1000 < t div 1000 + w \<longrightarrow>
         authenticate lib e now (Some (''Bearer '' @ token))
           = Forwarded \<lparr>userId = userId p, mobileNumber = mobileNumber p,
                        iat = t div 1000, exp_claim = t div 1000 + w\<rparr>)"
proof (intro conjI allI impI)
  assume "\<not> truthy h"
  then show "authenticate lib e now h = Rejected 401 ''Authorization header is required''"
    by (rule authenticate_missing)
next
  fix a
  assume "h = Some a \<and> a \<noteq> []"
  then have ap: "authenticate lib e now h =
       (if (if startsWith a ''Bearer '' then drop 7 a else a) = []
        then Rejected 401 ''Token is required''
        else case verifyToken lib e now (if startsWith a ''Bearer '' then drop 7 a else a) of
               Inr d \<Rightarrow> Forwarded d
             | Inl error \<Rightarrow>
                 Rejected 401 (if err_message error = [] then ''Invalid or expired token''
                               else err_message error))"
    using authenticate_present[of a lib e now] by simp
  show "let token = (if startsWith a ''Bearer '' then drop 7 a else a) in
           (token = [] \<longrightarrow> authenticate lib e now h = Rejected 401 ''Token is required'')
         \<and> (\<forall>d. token \<noteq> [] \<and> verifyToken lib e now token = Inr d \<longrightarrow>
               authenticate lib e now h = Forwarded d)
         \<and> (\<forall>err. token \<noteq> [] \<and> verifyToken lib e now token = Inl err \<longrightarrow>
               authenticate lib e now h
                 = Rejected 401 (if err_message err = [] then ''Invalid or expired token''
                                 else err_message err))
         \<and> (\<forall>err. token \<noteq> [] \<and> jwt_verify lib token (JWT_SECRET e) now = Inl err
                    \<and> err_name err = ''TokenExpiredError'' \<longrightarrow>
               authenticate lib e now h = Rejected 401 ''Token has expired'')
         \<and> (\<forall>err. token \<noteq> [] \<and> jwt_verify lib token (JWT_SECRET e) now = Inl err
                    \<and> err_name err = ''JsonWebTokenError'' \<longrightarrow>
               authenticate lib e now h = Rejected 401 ''Invalid token'')"
    unfolding Let_def
  proof (intro conjI allI impI)
    fix err
    assume "(if startsWith a ''Bearer '' then drop 7 a else a) \<noteq> []
      \<and> jwt_verify lib (if startsWith a ''Bearer '' then drop 7 a else a) (JWT_SECRET e) now
          = Inl err
      \<and> err_name err = ''TokenExpiredError''"
    then show "authenticate lib e now h = Rejected 401 ''Token has expired''"
      using verifyToken_error_classes[of lib
          "if startsWith a ''Bearer '' then drop 7 a else a" e now err]
      by (simp add: ap)
  next
    fix err
    assume "(if startsWith a ''Bearer '' then drop 7 a else a) \<noteq> []
      \<and> jwt_verify lib (if startsWith a ''Bearer '' then drop 7 a else a) (JWT_SECRET e) now
          = Inl err
      \<and> err_name err = ''JsonWebTokenError''"
    then show "authenticate lib e now h = Rejected 401 ''Invalid token''"
      using verifyToken_error_classes[of lib
          "if startsWith a ''Bearer '' then drop 7 a else a" e now err]
      by (simp add: ap)
  qed (simp_all add: ap)
next
  fix d
  assume "authenticate lib e now h = Forwarded d"
  then show "\<exists>a. h = Some a
            \<and> verifyToken lib e now (if startsWith a ''Bearer '' then drop 7 a else a) = Inr d"
    by (rule authenticate_forwarded)
next
  fix token :: string
  assume "token \<noteq> [] \<and> \<not> startsWith token ''Bearer ''"
  then show "authenticate lib e now (Some (''Bearer '' @ token))
           = authenticate lib e now (Some token)"
    using authenticate_bearer_prefix[of token lib e now] by simp
next
  fix p t w token
  assume h: "jsonwebtoken_contract lib \<and> generateToken lib e t p = Inr token
          \<and> token \<noteq> [] \<and> timespan lib (JWT_EXPIRES_IN e) = Some w
          \<and> now div 1000 < t div 1000 + w"
  then have "verifyToken lib e now token
       = Inr \<lparr>userId = userId p, mobileNumber = mobileNumber p,
                        iat = t div 1000, exp_claim = t div 1000 + w\<rparr>"
    using verifyToken_issued[of lib e t p token w now] by simp
  with h show "authenticate lib e now (Some (''Bearer '' @ token))
           = Forwarded \<lparr>userId = userId p, mobileNumber = mobileNumber p,
                        iat = t div 1000, exp_claim = t div 1000 + w\<rparr>"
    by (simp add: authenticate_def startsWith_def)
qed

lemma production_token:
  "generateToken symbolic_jwt env_production 1000
      \<lparr>userId = 1, mobileNumber = ''+919876543210''\<rparr>
     = Inr ''1.1.604801.6.s3cret+919876543210''"
  by (simp add: generateToken_def JWT_SECRET_def JWT_EXPIRES_IN_def or_default_def
      env_production_def symbolic_jwt_def symbolic_sign_def symbolic_timespan_def
      symbolic_encode_def toString.simps digit_char_def)

lemma production_timespan:
  "timespan symbolic_jwt (JWT_EXPIRES_IN env_production) = Some 604800"
  by (simp add: JWT_EXPIRES_IN_def or_default_def env_production_def symbolic_jwt_def
      symbolic_timespan_def)

theorem authenticate_gate_witness:
  "authenticate symbolic_jwt env_production 2000 None
     = Rejected 401 ''Authorization header is required''
   \<and> authenticate symbolic_jwt env_production 2000 (Some ''Bearer '')
     = Rejected 401 ''Token is required''
   \<and> authenticate symbolic_jwt env_production 2000
       (Some ''Bearer 1.1.604801.6.s3cret+919876543210'')
     = Forwarded \<lparr>userId = 1, mobileNumber = ''+919876543210'', iat = 1, exp_claim = 604801\<rparr>"
proof -
  have a: "authenticate symbolic_jwt env_production 2000 None
     = Rejected 401 ''Authorization header is required''"
    using authenticate_gate[of None symbolic_jwt env_production 2000]
    by (simp add: truthy_def)
  have b: "authenticate symbolic_jwt env_production 2000 (Some ''Bearer '')
     = Rejected 401 ''Token is required''"
    using authenticate_gate[of "Some ''Bearer ''" symbolic_jwt env_production 2000]
    by (simp add: startsWith_def)
  have "jsonwebtoken_contract symbolic_jwt
      \<and> generateToken symbolic_jwt env_production 1000
           \<lparr>userId = 1, mobileNumber = ''+919876543210''\<rparr>
         = Inr ''1.1.604801.6.s3cret+919876543210''
      \<and> ''1.1.604801.6.s3cret+919876543210'' \<noteq> []
      \<and> timespan symbolic_jwt (JWT_EXPIRES_IN env_production) = Some 604800
      \<and> (2000::nat) div 1000 < 1000 div 1000 + 604800"
    using symbolic_jwt_contract production_token production_timespan by simp
  then have c: "authenticate symbolic_jwt env_production 2000
       (Some (''Bearer '' @ ''1.1.604801.6.s3cret+919876543210''))
     = Forwarded \<lparr>userId = userId \<lparr>userId = 1, mobileNumber = ''+919876543210''\<rparr>,
          mobileNumber = mobileNumber \<lparr>userId = 1, mobileNumber = ''+919876543210''\<rparr>,
          iat = 1000 div 1000, exp_claim = 1000 div 1000 + 604800\<rparr>"
    using authenticate_gate[of None symbolic_jwt env_production 2000] by blast
  from a b c show ?thesis by simp
qed

text \<open>
  C8. With the signing package meeting its contract: a token issued for a payload \<open>p\<close>
  verifies to \<open>p\<close> (with its issue and expiry times) as long as the clock, in whole
  seconds, is before the issue time plus the configured window, and fails with
  \<open>Token has expired\<close> from then on; the window is seven days when
  \<^verbatim>\<open>JWT_EXPIRES_IN\<close> is not set. Verified under another secret the token fails with
  \<open>Invalid token\<close>, as does every token the package reports as a
  \<^verbatim>\<open>JsonWebTokenError\<close>; the two messages differ.
\<close>

theorem token_round_trip:
  assumes "jsonwebtoken_contract lib" and "generateToken lib e t p = Inr token"
    and "timespan lib (JWT_EXPIRES_IN e) = Some w"
  shows "(t' div 1000 < t div 1000 + w \<longrightarrow>
            (\<exists>d. verifyToken lib e t' token = Inr d \<and> payload.truncate d = p
                  \<and> iat d = t div 1000 \<and> exp_claim d = t div 1000 + w))
       \<and> (t div 1000 + w \<le> t' div 1000 \<longrightarrow>
            verifyToken lib e t' token
              = Inl \<lparr>err_name = ''Error'', err_message = ''Token has expired''\<rparr>)
       \<and> (\<not> truthy (env_JWT_EXPIRES_IN e) \<longrightarrow> w = 7 * 24 * 60 * 60)
       \<and> (\<forall>e'. JWT_SECRET e' \<noteq> JWT_SECRET e \<longrightarrow>
            verifyToken lib e' t' token
              = Inl \<lparr>err_name = ''Error'', err_message = ''Invalid token''\<rparr>)
       \<and> (\<forall>tok err. jwt_verify lib tok (JWT_SECRET e) t' = Inl err
                      \<and> err_name err = ''JsonWebTokenError'' \<longrightarrow>
            verifyToken lib e t' tok
              = Inl \<lparr>err_name = ''Error'', err_message = ''Invalid token''\<rparr>)"
proof (intro conjI allI impI)
  assume "t' div 1000 < t div 1000 + w"
  then have "verifyToken lib e t' token
      = Inr \<lparr>userId = userId p, mobileNumber = mobileNumber p,
              iat = t div 1000, exp_claim = t div 1000 + w\<rparr>"
    using verifyToken_issued[OF assms, of t'] by simp
  then show "\<exists>d. verifyToken lib e t' token = Inr d \<and> payload.truncate d = p
                  \<and> iat d = t div 1000 \<and> exp_claim d = t div 1000 + w"
    by (simp add: payload.truncate_def)
next
  assume "t div 1000 + w \<le> t' div 1000"
  then show "verifyToken lib e t' token
              = Inl \<lparr>err_name = ''Error'', err_message = ''Token has expired''\<rparr>"
    using verifyToken_issued[OF assms, of t'] by simp
next
  assume "\<not> truthy (env_JWT_EXPIRES_IN e)"
  then show "w = 7 * 24 * 60 * 60"
    using default_window[OF assms(1), of e] assms(3) by simp
next
  fix e'
  assume "JWT_SECRET e' \<noteq> JWT_SECRET e"
  then show "verifyToken lib e' t' token
              = Inl \<lparr>err_name = ''Error'', err_message = ''Invalid token''\<rparr>"
    using verifyToken_other_secret[OF assms(1,2)] by simp
next
  fix tok err
  assume "jwt_verify lib tok (JWT_SECRET e) t' = Inl err
            \<and> err_name err = ''JsonWebTokenError''"
  then show "verifyToken lib e t' tok
              = Inl \<lparr>err_name = ''Error'', err_message = ''Invalid token''\<rparr>"
    using verifyToken_error_classes[of lib tok e t' err] by simp
qed

theorem token_round_trip_witness:
  "verifyToken symbolic_jwt env_production 604800999 ''1.1.604801.6.s3cret+919876543210''
     = Inr \<lparr>userId = 1, mobileNumber = ''+919876543210'', iat = 1, exp_claim = 604801\<rparr>
   \<and> verifyToken symbolic_jwt env_production 604801000 ''1.1.604801.6.s3cret+919876543210''
     = Inl \<lparr>err_name = ''Error'', err_message = ''Token has expired''\<rparr>
   \<and> verifyToken symbolic_jwt env_local 2000 ''1.1.604801.6.s3cret+919876543210''
     = Inl \<lparr>err_name = ''Error'', err_message = ''Invalid token''\<rparr>"
proof -
  note rt = token_round_trip[OF symbolic_jwt_contract production_token production_timespan]
  have "\<exists>d. verifyToken symbolic_jwt env_production 604800999
               ''1.1.604801.6.s3cret+919876543210'' = Inr d
            \<and> payload.truncate d = \<lparr>userId = 1, mobileNumber = ''+919876543210''\<rparr>
            \<and> iat d = 1000 div 1000 \<and> exp_claim d = 1000 div 1000 + 604800"
    using rt[of 604800999] by simp
  then have a: "verifyToken symbolic_jwt env_production 604800999
      ''1.1.604801.6.s3cret+919876543210''
     = Inr \<lparr>userId = 1, mobileNumber = ''+919876543210'', iat = 1, exp_claim = 604801\<rparr>"
    by (auto simp: payload.truncate_def)
  have b: "verifyToken symbolic_jwt env_production 604801000
      ''1.1.604801.6.s3cret+919876543210''
     = Inl \<lparr>err_name = ''Error'', err_message = ''Token has expired''\<rparr>"
    using rt[of 604801000] by simp
  have "JWT_SECRET env_local \<noteq> JWT_SECRET env_production"
    by (simp add: JWT_SECRET_def or_default_def env_local_def env_production_def)
  then have c: "verifyToken symbolic_jwt env_local 2000 ''1.1.604801.6.s3cret+919876543210''
     = Inl \<lparr>err_name = ''Error'', err_message = ''Invalid token''\<rparr>"
    using rt[of 2000] by blast
  from a b c show ?thesis by simp
qed

text \<open>
  C10. When \<^verbatim>\<open>JWT_SECRET\<close> is unset, the secret is the fixed string
  \<open>your-secret-key-change-in-production\<close>: tokens are signed with it and verified
  against it. With the signing package meeting its contract and a well-formed time span,
  issuing a token for any payload then succeeds, and the token verifies to that payload
  until it expires.
\<close>

theorem fallback_secret:
  assumes "env_JWT_SECRET e = None"
  shows "JWT_SECRET e = ''your-secret-key-change-in-production''
       \<and> generateToken lib e t p
           = jwt_sign lib p ''your-secret-key-change-in-production'' (JWT_EXPIRES_IN e) t
       \<and> (\<forall>d. jwt_verify lib token ''your-secret-key-change-in-production'' t' = Inr d \<longrightarrow>
             verifyToken lib e t' token = Inr d)
       \<and> (\<forall>w. jsonwebtoken_contract lib \<and> timespan lib (JWT_EXPIRES_IN e) = Some w \<longrightarrow>
             (\<exists>tok. generateToken lib e t p = Inr tok
                \<and> (t' div 1000 < t div 1000 + w \<longrightarrow>
                     verifyToken lib e t' tok
                       = Inr \<lparr>userId = userId p, mobileNumber = mobileNumber p,
                               iat = t div 1000, exp_claim = t div 1000 + w\<rparr>)))"
proof -
  have s: "JWT_SECRET e = ''your-secret-key-change-in-production''"
    using assms by (simp add: JWT_SECRET_def or_default_def)
  have g: "generateToken lib e t p
           = jwt_sign lib p ''your-secret-key-change-in-production'' (JWT_EXPIRES_IN e) t"
    by (simp add: generateToken_def s)
  have v: "verifyToken lib e t' token = Inr d"
    if "jwt_verify lib token ''your-secret-key-change-in-production'' t' = Inr d" for d
    using that by (simp add: verifyToken_def s)
  have r: "\<exists>tok. generateToken lib e t p = Inr tok
                \<and> (t' div 1000 < t div 1000 + w \<longrightarrow>
                     verifyToken lib e t' tok
                       = Inr \<lparr>userId = userId p, mobileNumber = mobileNumber p,
                               iat = t div 1000, exp_claim = t div 1000 + w\<rparr>)"
    if h: "jsonwebtoken_contract lib \<and> timespan lib (JWT_EXPIRES_IN e) = Some w" for w
  proof -
    from h obtain tok where tok: "generateToken lib e t p = Inr tok"
      using generateToken_succeeds[of lib e t p] by auto
    with h show ?thesis
      using verifyToken_issued[of lib e t p tok w t'] by simp
  qed
  from s g v r show ?thesis by blast
qed

theorem fallback_secret_witness:
  "JWT_SECRET env_local = ''your-secret-key-change-in-production''
   \<and> (\<exists>tok. generateToken symbolic_jwt env_local 1000
                \<lparr>userId = 1, mobileNumber = ''+919876543210''\<rparr> = Inr tok
          \<and> verifyToken symbolic_jwt env_local 2000 tok
              = Inr \<lparr>userId = 1, mobileNumber = ''+919876543210'', iat = 1,
                      exp_claim = 604801\<rparr>)"
proof -
  have a: "env_JWT_SECRET env_local = None" by (simp add: env_local_def)
  have ts: "timespan symbolic_jwt (JWT_EXPIRES_IN env_local) = Some 604800"
    by (simp add: symbolic_jwt_def symbolic_timespan_def JWT_EXPIRES_IN_def or_default_def
        env_local_def)
  note fs = fallback_secret[OF a, of symbolic_jwt 1000
      "\<lparr>userId = 1, mobileNumber = ''+919876543210''\<rparr>" "[]" 2000]
  from fs have s: "JWT_SECRET env_local = ''your-secret-key-change-in-production''"
    by (rule conjunct1)
  from fs have "\<forall>w. jsonwebtoken_contract symbolic_jwt
                   \<and> timespan symbolic_jwt (JWT_EXPIRES_IN env_local) = Some w \<longrightarrow>
             (\<exists>tok. generateToken symbolic_jwt env_local 1000
                        \<lparr>userId = 1, mobileNumber = ''+919876543210''\<rparr> = Inr tok
                \<and> ((2000::nat) div 1000 < 1000 div 1000 + w \<longrightarrow>
                     verifyToken symbolic_jwt env_local 2000 tok
                       = Inr \<lparr>userId = userId \<lparr>userId = 1, mobileNumber = ''+919876543210''\<rparr>,
                               mobileNumber
                                 = mobileNumber \<lparr>userId = 1, mobileNumber = ''+919876543210''\<rparr>,
                               iat = 1000 div 1000, exp_claim = 1000 div 1000 + w\<rparr>))"
    by blast
  with symbolic_jwt_contract ts
  have "\<exists>tok. generateToken symbolic_jwt env_local 1000
                        \<lparr>userId = 1, mobileNumber = ''+919876543210''\<rparr> = Inr tok
                \<and> ((2000::nat) div 1000 < 1000 div 1000 + 604800 \<longrightarrow>
                     verifyToken symbolic_jwt env_local 2000 tok
                       = Inr \<lparr>userId = userId \<lparr>userId = 1, mobileNumber = ''+919876543210''\<rparr>,
                               mobileNumber
                                 = mobileNumber \<lparr>userId = 1, mobileNumber = ''+919876543210''\<rparr>,
                               iat = 1000 div 1000, exp_claim = 1000 div 1000 + 604800\<rparr>)"
    by blast
  then have "\<exists>tok. generateToken symbolic_jwt env_local 1000
                \<lparr>userId = 1, mobileNumber = ''+919876543210''\<rparr> = Inr tok
          \<and> verifyToken symbolic_jwt env_local 2000 tok
              = Inr \<lparr>userId = 1, mobileNumber = ''+919876543210'', iat = 1,
                      exp_claim = 604801\<rparr>"
    by simp
  with s show ?thesis by blast
qed

end
